theory Spec2Isabelle
  imports Complex_Main
begin

section \<open>WatchTogether: playback synchronisation, control authority, backends\<close>

text \<open>
  A shallow embedding of \<^verbatim>\<open>src/App.jsx\<close>. A JavaScript number that holds seconds is
  modelled by the \<^typ>\<open>real\<close> it denotes, with every arithmetic operation of the source
  rounded to the nearest double (\<open>fl\<close> below); epoch milliseconds (\<^verbatim>\<open>Date.now()\<close>) are
  \<^typ>\<open>int\<close>, strings are \<^typ>\<open>string\<close>. Every handler is a function of the render scope it closes over (the
  React state of the render that created it) and of the live objects it reaches through
  refs (the player handle, the store). Chat, presence and markup are left out; the earlier
  revisions of the file kept beside it differ in the gate on \<^verbatim>\<open>viewerReady\<close>, which they
  do not have.
\<close>

subsection \<open>Utilities\<close>

fun starts_with :: "string \<Rightarrow> string \<Rightarrow> bool" where
  "starts_with [] s = True"
| "starts_with (p # ps) [] = False"
| "starts_with (p # ps) (c # cs) = (p = c \<and> starts_with ps cs)"

text \<open>\<^verbatim>\<open>String.prototype.includes\<close>, and \<^verbatim>\<open>RegExp.test\<close> for a literal pattern.\<close>

fun includes_str :: "string \<Rightarrow> string \<Rightarrow> bool" where
  "includes_str [] p = (p = [])"
| "includes_str (c # cs) p = (starts_with p (c # cs) \<or> includes_str cs p)"

text \<open>
  \<^verbatim>\<open>isYouTubeUrl = (u) => /youtu\.be\//.test(u) || /youtube\.com\/.*/.test(u)\<close>: both
  patterns are unanchored, and the trailing \<^verbatim>\<open>.*\<close> matches the empty string, so each test
  is a substring search.
\<close>

definition isYouTubeUrl :: "string \<Rightarrow> bool" where
  "isYouTubeUrl u = (includes_str u ''youtu.be/'' \<or> includes_str u ''youtube.com/'')"

text \<open>
  The result of the platform's \<^verbatim>\<open>new URL(url)\<close>, restricted to the three parts that
  \<^verbatim>\<open>extractYouTubeId\<close> reads. The constructor itself is the browser's; where it throws,
  the caller passes \<open>None\<close>.
\<close>

record URL =
  hostname :: string
  pathname :: string
  searchParams :: "(string \<times> string) list"

text \<open>\<^verbatim>\<open>[\w-]\<close>: ASCII letters, digits, underscore and hyphen.\<close>

definition word_char :: "char \<Rightarrow> bool" where
  "word_char c = (let n = of_char c :: nat in
     (48 \<le> n \<and> n \<le> 57) \<or> (65 \<le> n \<and> n \<le> 90) \<or> (97 \<le> n \<and> n \<le> 122) \<or> n = 95 \<or> n = 45)"

text \<open>
  \<^verbatim>\<open>pathname.match(/\/embed\/([\w-]+)/)\<close>: the leftmost position at which \<^verbatim>\<open>/embed/\<close> is
  followed by at least one identifier character; the group is the longest such run.
\<close>

fun match_embed :: "string \<Rightarrow> string option" where
  "match_embed [] = None"
| "match_embed (c # cs) =
     (if starts_with ''/embed/'' (c # cs) \<and> takeWhile word_char (drop 7 (c # cs)) \<noteq> []
      then Some (takeWhile word_char (drop 7 (c # cs)))
      else match_embed cs)"

text \<open>\<^verbatim>\<open>searchParams.get(name)\<close>: the first value stored under the name, else null.\<close>

definition searchParams_get :: "(string \<times> string) list \<Rightarrow> string \<Rightarrow> string option" where
  "searchParams_get ps k = map_of ps k"

text \<open>JavaScript truthiness of a string-or-null value.\<close>

fun truthy :: "string option \<Rightarrow> bool" where
  "truthy None = False"
| "truthy (Some s) = (s \<noteq> [])"

text \<open>
  \<^verbatim>\<open>extractYouTubeId\<close>, applied to the outcome of \<^verbatim>\<open>new URL(url)\<close> (\<open>None\<close> when the
  constructor throws, which the \<^verbatim>\<open>catch\<close> turns into \<^verbatim>\<open>null\<close>).
\<close>

definition extractYouTubeId :: "URL option \<Rightarrow> string option" where
  "extractYouTubeId parsed =
     (case parsed of
        None \<Rightarrow> None
      | Some u \<Rightarrow>
          if hostname u = ''youtu.be'' then Some (drop 1 (pathname u))
          else if includes_str (hostname u) ''youtube.com'' then
            (if truthy (searchParams_get (searchParams u) ''v'')
             then searchParams_get (searchParams u) ''v''
             else match_embed (pathname u))
          else None)"

subsection \<open>Double-precision arithmetic\<close>

text \<open>
  JavaScript numbers are IEEE 754 binary64 values, and \<^verbatim>\<open>+\<close>, \<^verbatim>\<open>-\<close> and \<^verbatim>\<open>/\<close> return
  the double nearest to the exact result, ties going to the even significand. \<open>fl\<close> is
  that rounding: the exponent of the argument is found from the bit length of its integer
  part (or of its reciprocal's), the quantum is 52 places below it but never below
  2 to the power -1074 (gradual underflow), and the argument is rounded to a multiple of the
  quantum. Comparison and \<^verbatim>\<open>Math.abs\<close> are exact. The sign of zero is not kept: nothing
  in the source tells \<open>-0\<close> from \<open>0\<close>.

  A result of magnitude 2 to the power 1024 or more is \<^verbatim>\<open>Infinity\<close> in the language, which the
  \<^verbatim>\<open>video\<close> element refuses with an exception when assigned to \<^verbatim>\<open>currentTime\<close>; \<open>fl\<close>
  has no upper bound on the exponent, so it is the language's result wherever that result
  is finite. \<open>in_range\<close> and \<open>safe_ms\<close> bound positions and timestamps so that every
  intermediate result of \<^verbatim>\<open>syncToPlayer\<close> is finite and both timestamps are doubles.
\<close>

fun bit_length :: "nat \<Rightarrow> nat" where
  "bit_length n = (if n = 0 then 0 else Suc (bit_length (n div 2)))"

declare bit_length.simps [simp del]

text \<open>For \<open>a > 0\<close>, the integer \<open>e\<close> for which \<open>a\<close> lies between 2 to the power \<open>e\<close> (included) and twice that (excluded).\<close>

definition exponent :: "real \<Rightarrow> int" where
  "exponent a =
     (if 1 \<le> a then int (bit_length (nat \<lfloor>a\<rfloor>)) - 1
      else - int (bit_length (nat (\<lceil>1 / a\<rceil> - 1))))"

definition scale2 :: "real \<Rightarrow> int \<Rightarrow> real" where
  "scale2 x q = (if 0 \<le> q then x * 2 ^ nat q else x / 2 ^ nat (- q))"

definition round_half_even :: "real \<Rightarrow> int" where
  "round_half_even t =
     (let f = \<lfloor>t\<rfloor>; r = t - of_int f
      in if r < 1 / 2 then f else if 1 / 2 < r then f + 1 else if even f then f else f + 1)"

definition fl :: "real \<Rightarrow> real" where
  "fl x =
     (if x = 0 then 0
      else let a = \<bar>x\<bar>;
               q = max (exponent a - 52) (- 1074);
               m = round_half_even (scale2 a (- q))
           in sgn x * scale2 (of_int m) q)"

definition in_range :: "real \<Rightarrow> bool" where
  "in_range x = (\<bar>x\<bar> \<le> 2 ^ 1000)"

definition safe_ms :: "int \<Rightarrow> bool" where
  "safe_ms n = (\<bar>n\<bar> \<le> 2 ^ 53)"

text \<open>\<^verbatim>\<open>const DRIFT_THRESHOLD = 0.6\<close>: the literal denotes the double nearest to 6/10.\<close>

definition DRIFT_THRESHOLD :: real where
  "DRIFT_THRESHOLD = fl (6 / 10)"

subsection \<open>Records of the store\<close>

text \<open>
  The store is schemaless: a node read back may lack any field, so the fields of the
  Room node are optional. \<^verbatim>\<open>rooms/{id}/playback\<close> is always written with all four
  fields (by \<^verbatim>\<open>handleCreateRoom\<close> and \<^verbatim>\<open>broadcastPlayback\<close>).
\<close>

record room =
  room_videoUrl :: "string option"
  room_hostId :: "string option"
  room_allowEveryoneControl :: "bool option"
  room_createdAt :: "int option"

record playback =
  pb_isPlaying :: bool
  pb_currentTime :: real
  pb_updatedAt :: int
  pb_by :: string

record store =
  rooms :: "string \<rightharpoonup> room"
  playbacks :: "string \<rightharpoonup> playback"

definition empty_room :: room where
  "empty_room = \<lparr>room_videoUrl = None, room_hostId = None,
     room_allowEveryoneControl = None, room_createdAt = None\<rparr>"

subsection \<open>React state of the App component\<close>

record app =
  roomId :: string
  isHost :: bool
  videoUrl :: string
  allowEveryone :: bool
  canControl :: bool
  viewerReady :: bool
  isPlaying :: bool
  remoteTime :: real
  lastUpdateMs :: int
  nickname :: string
  createUrl :: string

text \<open>\<^verbatim>\<open>!!d.allowEveryoneControl\<close> and \<^verbatim>\<open>d.videoUrl || ""\<close> on optional fields.\<close>

fun truthy_bool :: "bool option \<Rightarrow> bool" where
  "truthy_bool None = False"
| "truthy_bool (Some b) = b"

fun or_empty :: "string option \<Rightarrow> string" where
  "or_empty None = []"
| "or_empty (Some s) = s"

text \<open>The \<^verbatim>\<open>onValue(roomRef, ...)\<close> listener; \<open>d\<close> is \<^verbatim>\<open>s.val()\<close>.\<close>

definition onRoomValue :: "string \<Rightarrow> room option \<Rightarrow> app \<Rightarrow> app" where
  "onRoomValue myId d st =
     (case d of
        None \<Rightarrow> st
      | Some r \<Rightarrow> st\<lparr>isHost := (room_hostId r = Some myId),
                      allowEveryone := truthy_bool (room_allowEveryoneControl r),
                      canControl := (room_hostId r = Some myId \<or> truthy_bool (room_allowEveryoneControl r))\<rparr>)"

text \<open>The \<^verbatim>\<open>get(roomRef).then(...)\<close> continuation of the join effect.\<close>

definition onRoomGet :: "string \<Rightarrow> room option \<Rightarrow> app \<Rightarrow> app" where
  "onRoomGet myId d st =
     (case d of
        None \<Rightarrow> st
      | Some r \<Rightarrow> st\<lparr>videoUrl := or_empty (room_videoUrl r),
                      isHost := (room_hostId r = Some myId),
                      allowEveryone := truthy_bool (room_allowEveryoneControl r),
                      canControl := (room_hostId r = Some myId \<or> truthy_bool (room_allowEveryoneControl r))\<rparr>)"

subsection \<open>The two playback backends\<close>

text \<open>
  \<^verbatim>\<open>Html5Player\<close>: the fields of the \<^verbatim>\<open>video\<close> element that the handle reads or writes,
  the component's \<^verbatim>\<open>suppressRef\<close>, the number of \<^verbatim>\<open>setTimeout(..., 0)\<close> callbacks that
  \<^verbatim>\<open>seek\<close> has scheduled and that have not run yet, and the component's two state
  variables. \<open>h_allowed\<close> is the browser's answer to \<^verbatim>\<open>video.play()\<close>: whether the
  promise resolves or is rejected by the autoplay policy. \<open>h_paused\<close> and \<open>h_ended\<close> are
  what the element answers when asked; assigning \<^verbatim>\<open>currentTime\<close> is taken to leave both
  as they are.
\<close>

record html5 =
  h_currentTime :: real
  h_paused :: bool
  h_ended :: bool
  h_muted :: bool
  h_suppress :: bool
  h_timers :: nat
  h_allowed :: bool
  needUserStart :: bool
  lastError :: "string option"

text \<open>
  \<^verbatim>\<open>YouTubePlayer\<close>: \<^verbatim>\<open>ready.current\<close>, \<^verbatim>\<open>suppress.current\<close>, the pending timeouts, and
  what the widget answers to \<^verbatim>\<open>getCurrentTime()\<close> and \<^verbatim>\<open>getPlayerState()\<close>. The widget
  changes its state on its own schedule and reports it through \<^verbatim>\<open>onStateChange\<close>;
  \<^verbatim>\<open>playVideo\<close> and \<^verbatim>\<open>pauseVideo\<close> change nothing that the handle can read back before
  that report arrives.
\<close>

record yt =
  y_ready :: bool
  y_suppress :: bool
  y_timers :: nat
  y_time :: real
  y_state :: int

datatype backend = Html5 html5 | YouTube yt

text \<open>The calls that reach the handle \<^verbatim>\<open>playerRef.current\<close>, in the order issued.\<close>

datatype call = Seek real | Play | Pause

text \<open>\<^verbatim>\<open>x || 0\<close> on a number.\<close>

definition or0 :: "real \<Rightarrow> real" where
  "or0 x = (if x = 0 then 0 else x)"

definition or0i :: "int \<Rightarrow> int" where
  "or0i x = (if x = 0 then 0 else x)"

fun getCurrentTime :: "backend \<Rightarrow> real" where
  "getCurrentTime (Html5 v) = or0 (h_currentTime v)"
| "getCurrentTime (YouTube y) = (if y_ready y then y_time y else 0)"

fun player_isPlaying :: "backend \<Rightarrow> bool" where
  "player_isPlaying (Html5 v) = (\<not> h_paused v \<and> \<not> h_ended v)"
| "player_isPlaying (YouTube y) = (if y_ready y then y_state y = 1 else False)"

text \<open>
  \<^verbatim>\<open>seek\<close>: raise the suppression flag, move the head, schedule the callback that
  lowers the flag. The embedded-widget handle does all of it only once the widget is
  ready; \<^verbatim>\<open>seekTo\<close> is taken to move what \<^verbatim>\<open>getCurrentTime()\<close> answers at once.
\<close>

fun seek :: "real \<Rightarrow> backend \<Rightarrow> backend" where
  "seek s (Html5 v) =
     Html5 (v\<lparr>h_suppress := True, h_currentTime := s, h_timers := Suc (h_timers v)\<rparr>)"
| "seek s (YouTube y) =
     (if y_ready y
      then YouTube (y\<lparr>y_suppress := True, y_time := s, y_timers := Suc (y_timers y)\<rparr>)
      else YouTube y)"

text \<open>
  \<^verbatim>\<open>play\<close>: the native handle mutes, calls \<^verbatim>\<open>video.play()\<close>, and records whether the
  browser refused; the widget handle forwards to \<^verbatim>\<open>playVideo\<close> when ready.
\<close>

fun play :: "backend \<Rightarrow> backend" where
  "play (Html5 v) =
     (if h_allowed v
      then Html5 (v\<lparr>h_muted := True, h_paused := False, needUserStart := False, lastError := None\<rparr>)
      else Html5 (v\<lparr>h_muted := True, needUserStart := True, lastError := Some ''NotAllowedError''\<rparr>))"
| "play (YouTube y) = YouTube y"

fun pause :: "backend \<Rightarrow> backend" where
  "pause (Html5 v) = Html5 (v\<lparr>h_paused := True\<rparr>)"
| "pause (YouTube y) = YouTube y"

text \<open>The callback scheduled by \<^verbatim>\<open>seek\<close>: \<^verbatim>\<open>() => (suppressRef.current = false)\<close>.\<close>

fun timeout_fires :: "backend \<Rightarrow> backend" where
  "timeout_fires (Html5 v) =
     (if h_timers v = 0 then Html5 v
      else Html5 (v\<lparr>h_suppress := False, h_timers := h_timers v - 1\<rparr>))"
| "timeout_fires (YouTube y) =
     (if y_timers y = 0 then YouTube y
      else YouTube (y\<lparr>y_suppress := False, y_timers := y_timers y - 1\<rparr>))"

fun suppressed :: "backend \<Rightarrow> bool" where
  "suppressed (Html5 v) = h_suppress v"
| "suppressed (YouTube y) = y_suppress y"

text \<open>
  \<^verbatim>\<open>userStart\<close>, the handler of the overlay button: unmute, call \<^verbatim>\<open>video.play()\<close>, and on
  success tell the parent through \<^verbatim>\<open>onUserReady\<close>, which is \<^verbatim>\<open>() => setViewerReady(true)\<close>.
  \<open>granted\<close> is the browser's answer to this \<^verbatim>\<open>play()\<close>, made inside a user gesture. The
  button is rendered only while \<^verbatim>\<open>needUserStart\<close> is true, and only by the native-media
  component.
\<close>

definition userStart :: "bool \<Rightarrow> html5 \<Rightarrow> app \<Rightarrow> html5 \<times> app" where
  "userStart granted v st =
     (if granted
      then (v\<lparr>h_muted := False, h_paused := False, needUserStart := False, lastError := None\<rparr>,
            st\<lparr>viewerReady := True\<rparr>)
      else (v\<lparr>h_muted := False, needUserStart := True, lastError := Some ''NotAllowedError''\<rparr>,
            st))"

fun click_start :: "bool \<Rightarrow> backend \<Rightarrow> app \<Rightarrow> backend \<times> app" where
  "click_start granted (Html5 v) st =
     (if needUserStart v
      then (Html5 (fst (userStart granted v st)), snd (userStart granted v st))
      else (Html5 v, st))"
| "click_start granted (YouTube y) st = (YouTube y, st)"

text \<open>
  A seek that the user makes inside the widget: the widget moves its head; the component
  is not called.
\<close>

fun widget_user_seek :: "real \<Rightarrow> backend \<Rightarrow> backend" where
  "widget_user_seek t (YouTube y) = YouTube (y\<lparr>y_time := t\<rparr>)"
| "widget_user_seek t (Html5 v) = Html5 v"

text \<open>
  What the backend reports to the component: the \<^verbatim>\<open>play\<close>, \<^verbatim>\<open>pause\<close> and
  \<^verbatim>\<open>seeked\<close> events of the \<^verbatim>\<open>video\<close> element, and the widget's \<^verbatim>\<open>onReady\<close> and
  \<^verbatim>\<open>onStateChange\<close> with its \<^verbatim>\<open>e.data\<close>.
\<close>

datatype media_event = EvPlay | EvPause | EvSeeked | YTReady | YTStateChange int

text \<open>The notifications a backend component may pass to its parent.\<close>

datatype notification = LocalPlay | LocalPause | LocalSeek real

text \<open>
  The listeners registered by \<^verbatim>\<open>Html5Player\<close> (\<^verbatim>\<open>handlePlay\<close>, \<^verbatim>\<open>handlePause\<close>,
  \<^verbatim>\<open>handleSeeked\<close>) and the \<^verbatim>\<open>events\<close> of \<^verbatim>\<open>YouTubePlayer\<close>. An event of the other
  backend never reaches a component.
\<close>

fun notify :: "backend \<Rightarrow> media_event \<Rightarrow> notification option" where
  "notify (Html5 v) EvPlay = (if \<not> h_suppress v then Some LocalPlay else None)"
| "notify (Html5 v) EvPause = (if \<not> h_suppress v then Some LocalPause else None)"
| "notify (Html5 v) EvSeeked = (if \<not> h_suppress v then Some (LocalSeek (h_currentTime v)) else None)"
| "notify (Html5 v) _ = None"
| "notify (YouTube y) (YTStateChange d) =
     (if \<not> y_ready y \<or> y_suppress y then None
      else if d = 1 then Some LocalPlay
      else if d = 2 then Some LocalPause
      else None)"
| "notify (YouTube y) _ = None"

text \<open>
  The effect of an event on what the handle reads afterwards: the widget's state code
  becomes the reported one and \<^verbatim>\<open>onReady\<close> sets \<^verbatim>\<open>ready.current\<close>; the \<^verbatim>\<open>video\<close>
  element's own fields were already changed by whoever caused the event.
\<close>

fun observe :: "media_event \<Rightarrow> backend \<Rightarrow> backend" where
  "observe YTReady (YouTube y) = YouTube (y\<lparr>y_ready := True\<rparr>)"
| "observe (YTStateChange d) (YouTube y) = YouTube (y\<lparr>y_state := d\<rparr>)"
| "observe _ b = b"

subsection \<open>Writes to the store\<close>

text \<open>
  The store operations the component issues. \<^verbatim>\<open>set\<close> on \<^verbatim>\<open>rooms/{id}\<close> replaces the
  whole node, children included; \<^verbatim>\<open>set\<close> and \<^verbatim>\<open>update\<close> on \<^verbatim>\<open>rooms/{id}/playback\<close>
  are always given all four fields; \<^verbatim>\<open>update\<close> on \<^verbatim>\<open>rooms/{id}\<close> is given the one field
  \<^verbatim>\<open>allowEveryoneControl\<close>.
\<close>

datatype store_op =
    SetRoom string room
  | SetPlayback string playback
  | UpdatePlayback string playback
  | UpdateRoomAllow string bool

fun apply_write :: "store_op \<Rightarrow> store \<Rightarrow> store" where
  "apply_write (SetRoom rid r) db =
     db\<lparr>rooms := (rooms db)(rid \<mapsto> r), playbacks := (playbacks db)(rid := None)\<rparr>"
| "apply_write (SetPlayback rid p) db = db\<lparr>playbacks := (playbacks db)(rid \<mapsto> p)\<rparr>"
| "apply_write (UpdatePlayback rid p) db = db\<lparr>playbacks := (playbacks db)(rid \<mapsto> p)\<rparr>"
| "apply_write (UpdateRoomAllow rid b) db =
     db\<lparr>rooms := (rooms db)(rid \<mapsto>
        (case rooms db rid of None \<Rightarrow> empty_room | Some r \<Rightarrow> r)\<lparr>room_allowEveryoneControl := Some b\<rparr>)\<rparr>"

fun apply_writes :: "store_op list \<Rightarrow> store \<Rightarrow> store" where
  "apply_writes [] db = db"
| "apply_writes (w # ws) db = apply_writes ws (apply_write w db)"

subsection \<open>Handlers of the App component\<close>

text \<open>
  Each handler is a closure created by one render: \<open>st\<close> is the state of that render,
  \<open>myId\<close> the memoised participant id, \<open>now\<close> what \<^verbatim>\<open>Date.now()\<close> returns, and
  \<open>pl\<close> the live \<^verbatim>\<open>playerRef.current\<close> (\<open>None\<close> while no player is mounted). A listener
  registered by an effect keeps the scope of the render in which the effect ran.
\<close>

definition broadcastPlayback :: "app \<Rightarrow> string \<Rightarrow> int \<Rightarrow> backend option \<Rightarrow> store_op list" where
  "broadcastPlayback st myId now pl =
     (if \<not> canControl st \<or> roomId st = [] then []
      else case pl of
             None \<Rightarrow> []
           | Some b \<Rightarrow>
               [UpdatePlayback (roomId st)
                  \<lparr>pb_isPlaying = player_isPlaying b, pb_currentTime = getCurrentTime b,
                   pb_updatedAt = now, pb_by = myId\<rparr>])"

text \<open>
  \<^verbatim>\<open>syncToPlayer(p)\<close>: the calls issued on the handle, in order, and the handle
  afterwards. \<^verbatim>\<open>playing\<close> is read once, after the seek and before \<^verbatim>\<open>play\<close>. The
  subtraction of the timestamps, the division by 1000, the addition and the subtraction of
  the positions are each rounded, as the language does; the elapsed time is computed
  whether \<^verbatim>\<open>p.isPlaying\<close> or not and used only when it is.
\<close>

definition expected_position :: "playback \<Rightarrow> int \<Rightarrow> real" where
  "expected_position p now =
     fl (or0 (pb_currentTime p)
          + (if pb_isPlaying p
             then fl (fl (real_of_int now - real_of_int (or0i (pb_updatedAt p))) / 1000)
             else 0))"

definition syncToPlayer ::
  "app \<Rightarrow> int \<Rightarrow> playback option \<Rightarrow> backend option \<Rightarrow> call list \<times> backend option" where
  "syncToPlayer st now snap pl =
     (case pl of
        None \<Rightarrow> ([], None)
      | Some b \<Rightarrow>
         (case snap of
            None \<Rightarrow> ([], Some b)
          | Some p \<Rightarrow>
              if \<not> isYouTubeUrl (videoUrl st) \<and> \<not> viewerReady st then ([], Some b)
              else
                let should = expected_position p now;
                    cur = getCurrentTime b;
                    drift = \<bar>fl (should - cur)\<bar>;
                    c1 = (if drift > DRIFT_THRESHOLD then [Seek should] else []);
                    b1 = (if drift > DRIFT_THRESHOLD then seek should b else b);
                    playing = player_isPlaying b1;
                    c2 = (if pb_isPlaying p \<and> \<not> playing then [Play] else []);
                    b2 = (if pb_isPlaying p \<and> \<not> playing then play b1 else b1);
                    c3 = (if \<not> pb_isPlaying p \<and> playing then [Pause] else []);
                    b3 = (if \<not> pb_isPlaying p \<and> playing then pause b2 else b2)
                in (c1 @ c2 @ c3, Some b3)))"

definition handlePlay :: "app \<Rightarrow> string \<Rightarrow> int \<Rightarrow> backend option \<Rightarrow> store_op list" where
  "handlePlay st myId now pl = (if \<not> canControl st then [] else broadcastPlayback st myId now pl)"

definition handlePause :: "app \<Rightarrow> string \<Rightarrow> int \<Rightarrow> backend option \<Rightarrow> store_op list" where
  "handlePause st myId now pl = (if \<not> canControl st then [] else broadcastPlayback st myId now pl)"

text \<open>\<^verbatim>\<open>handleSeekDelta(d)\<close>: calls on the handle, the handle afterwards, writes.\<close>

definition handleSeekDelta ::
  "app \<Rightarrow> string \<Rightarrow> int \<Rightarrow> real \<Rightarrow> backend option \<Rightarrow> call list \<times> backend option \<times> store_op list" where
  "handleSeekDelta st myId now d pl =
     (if \<not> canControl st then ([], pl, [])
      else case pl of
             None \<Rightarrow> ([], None, [])
           | Some b \<Rightarrow>
               let t = max 0 (fl (getCurrentTime b + d)); b1 = seek t b
               in ([Seek t], Some b1, broadcastPlayback st myId now (Some b1)))"

text \<open>\<^verbatim>\<open>handleSyncNow\<close>: one point read of the playback node, fed to \<^verbatim>\<open>syncToPlayer\<close>.\<close>

definition handleSyncNow ::
  "app \<Rightarrow> int \<Rightarrow> store \<Rightarrow> backend option \<Rightarrow> call list \<times> backend option" where
  "handleSyncNow st now db pl =
     (if roomId st = [] then ([], pl) else syncToPlayer st now (playbacks db (roomId st)) pl)"

definition toggleEveryoneControl :: "app \<Rightarrow> store_op list" where
  "toggleEveryoneControl st =
     (if \<not> isHost st \<or> roomId st = [] then []
      else [UpdateRoomAllow (roomId st) (\<not> allowEveryone st)])"

text \<open>
  The \<^verbatim>\<open>onValue\<close> listener of \<^verbatim>\<open>rooms/{roomId}/playback\<close>. The three setters act on the
  current state \<open>st\<close>; \<^verbatim>\<open>syncToPlayer\<close> is the one of the scope \<open>sc\<close> that the listener
  closes over.
\<close>

definition onPlaybackValue ::
  "app \<Rightarrow> int \<Rightarrow> playback option \<Rightarrow> app \<Rightarrow> backend option \<Rightarrow> app \<times> call list \<times> backend option" where
  "onPlaybackValue sc now snap st pl =
     (case snap of
        None \<Rightarrow> (st, [], pl)
      | Some p \<Rightarrow>
          (st\<lparr>isPlaying := pb_isPlaying p, remoteTime := or0 (pb_currentTime p),
              lastUpdateMs := or0i (pb_updatedAt p)\<rparr>,
           syncToPlayer sc now (Some p) pl))"

text \<open>
  What a backend notification does in the parent: \<^verbatim>\<open>onLocalPlay={handlePlay}\<close>,
  \<^verbatim>\<open>onLocalPause={handlePause}\<close>, \<^verbatim>\<open>onLocalSeek={() => broadcastPlayback()}\<close>.
\<close>

fun on_notification :: "app \<Rightarrow> string \<Rightarrow> int \<Rightarrow> backend option \<Rightarrow> notification \<Rightarrow> store_op list" where
  "on_notification st myId now pl LocalPlay = handlePlay st myId now pl"
| "on_notification st myId now pl LocalPause = handlePause st myId now pl"
| "on_notification st myId now pl (LocalSeek t) = broadcastPlayback st myId now pl"

text \<open>
  A backend event reaching the mounted player: the handle's readable state follows the
  event, the component's listener decides whether to notify, and the parent's callback
  runs.
\<close>

definition on_media_event ::
  "app \<Rightarrow> string \<Rightarrow> int \<Rightarrow> media_event \<Rightarrow> backend \<Rightarrow> backend \<times> store_op list" where
  "on_media_event st myId now e b =
     (let b1 = observe e b in
      (b1, case notify b1 e of None \<Rightarrow> [] | Some n \<Rightarrow> on_notification st myId now (Some b1) n))"

text \<open>
  What happens to a mounted player over time: the zero-delay callback of a \<^verbatim>\<open>seek\<close>
  runs, or the backend reports an event; each comes with the reading of \<^verbatim>\<open>Date.now()\<close>
  at that moment. A run collects the writes of the handlers it triggers.
\<close>

datatype occurrence = Timeout | Media media_event

fun occur :: "app \<Rightarrow> string \<Rightarrow> int \<times> occurrence \<Rightarrow> backend \<Rightarrow> backend \<times> store_op list" where
  "occur st myId (now, Timeout) b = (timeout_fires b, [])"
| "occur st myId (now, Media e) b = on_media_event st myId now e b"

fun run :: "app \<Rightarrow> string \<Rightarrow> (int \<times> occurrence) list \<Rightarrow> backend \<Rightarrow> backend \<times> store_op list" where
  "run st myId [] b = (b, [])"
| "run st myId (x # xs) b =
     (let (b1, ws1) = occur st myId x b; (b2, ws2) = run st myId xs b1 in (b2, ws1 @ ws2))"

subsection \<open>Room creation\<close>

text \<open>
  \<^verbatim>\<open>String.prototype.trim\<close> on code units below 256: tab, line feed, vertical tab, form
  feed, carriage return, space and no-break space are white space.
\<close>

definition white_space :: "char \<Rightarrow> bool" where
  "white_space c = (of_char c \<in> {9, 10, 11, 12, 13, 32, 160 :: nat})"

definition trim :: "string \<Rightarrow> string" where
  "trim s = rev (dropWhile white_space (rev (dropWhile white_space s)))"

text \<open>
  \<^verbatim>\<open>handleCreateRoom\<close>. \<open>newId\<close> is what \<^verbatim>\<open>makeId(10)\<close> returns, \<open>t1\<close> and \<open>t2\<close> the two
  readings of \<^verbatim>\<open>Date.now()\<close>; \<open>ok1\<close> and \<open>ok2\<close> say whether the store resolves the first
  and the second \<^verbatim>\<open>await set(...)\<close> (a rejected promise throws out of the handler, so
  nothing after it runs). The result is the list of writes the store has accepted, in
  order, and the state afterwards.
\<close>

definition handleCreateRoom ::
  "app \<Rightarrow> string \<Rightarrow> string \<Rightarrow> int \<Rightarrow> int \<Rightarrow> bool \<Rightarrow> bool \<Rightarrow> store_op list \<times> app" where
  "handleCreateRoom st myId newId t1 t2 ok1 ok2 =
     (let url = trim (createUrl st);
          w1 = SetRoom newId \<lparr>room_videoUrl = Some url, room_hostId = Some myId,
                 room_allowEveryoneControl = Some False, room_createdAt = Some t1\<rparr>;
          w2 = SetPlayback newId \<lparr>pb_isPlaying = False, pb_currentTime = 0,
                 pb_updatedAt = t2, pb_by = myId\<rparr>
      in if url = [] then ([], st)
         else if \<not> ok1 then ([], st)
         else if \<not> ok2 then ([w1], st)
         else ([w1, w2],
               st\<lparr>roomId := newId, videoUrl := url, isHost := True, allowEveryone := False,
                  canControl := True, viewerReady := False\<rparr>))"

text \<open>What a live subscriber of \<^verbatim>\<open>rooms/{id}\<close> can be shown: the store after each accepted write.\<close>

fun store_trace :: "store_op list \<Rightarrow> store \<Rightarrow> store list" where
  "store_trace [] db = []"
| "store_trace (w # ws) db = apply_write w db # store_trace ws (apply_write w db)"

subsection \<open>Effects\<close>

text \<open>
  The join effect (dependencies \<^verbatim>\<open>[db, roomId, myId, nickname]\<close>), run in the scope
  \<open>st\<close>: without a room id it does nothing; otherwise it resets \<^verbatim>\<open>viewerReady\<close> and
  registers the listeners, which close over \<open>st\<close>. The result is the state afterwards and
  the scope of the registered listeners.
\<close>

definition join_effect :: "app \<Rightarrow> app \<times> app option" where
  "join_effect st = (if roomId st = [] then (st, None) else (st\<lparr>viewerReady := False\<rparr>, Some st))"

definition join_deps :: "app \<Rightarrow> string \<times> string" where
  "join_deps st = (roomId st, nickname st)"

text \<open>
  A re-render from \<open>old\<close> to \<open>new\<close> with listeners of scope \<open>ls\<close>: the effect runs again
  (after its cleanup has removed the old listeners) only when \<^verbatim>\<open>roomId\<close> or
  \<^verbatim>\<open>nickname\<close> changed; otherwise the listeners registered earlier stay, with the scope
  they were created in.
\<close>

definition join_rerender :: "app \<Rightarrow> app \<Rightarrow> app option \<Rightarrow> app \<times> app option" where
  "join_rerender old new ls = (if join_deps new = join_deps old then (new, ls) else join_effect new)"

text \<open>
  The heartbeat effect, dependencies \<^verbatim>\<open>[roomId, canControl, isPlaying, videoUrl,
  viewerReady]\<close>.
\<close>

definition heartbeat_deps :: "app \<Rightarrow> string \<times> bool \<times> bool \<times> string \<times> bool" where
  "heartbeat_deps st = (roomId st, canControl st, isPlaying st, videoUrl st, viewerReady st)"

text \<open>
  The delay given to \<^verbatim>\<open>setInterval\<close>. Firings are events here; an interval is kept with
  its delay and with the scope its callback closes over.
\<close>

definition HEARTBEAT_PERIOD_MS :: int where
  "HEARTBEAT_PERIOD_MS = 3000"

definition heartbeat_effect :: "app \<Rightarrow> (int \<times> app) option" where
  "heartbeat_effect st =
     (if roomId st = [] then None
      else if canControl st \<and> isPlaying st \<and> (isYouTubeUrl (videoUrl st) \<or> viewerReady st)
           then Some (HEARTBEAT_PERIOD_MS, st) else None)"

text \<open>
  A re-render from state \<open>old\<close> to state \<open>new\<close>: when a dependency changed, the cleanup
  clears the interval and the effect runs again in the new scope; otherwise the interval
  is left as it is. Unmounting runs the cleanup only.
\<close>

definition heartbeat_rerender ::
  "app \<Rightarrow> app \<Rightarrow> (int \<times> app) option \<Rightarrow> (int \<times> app) option" where
  "heartbeat_rerender old new timer =
     (if heartbeat_deps new = heartbeat_deps old then timer else heartbeat_effect new)"

definition heartbeat_unmount :: "(int \<times> app) option \<Rightarrow> (int \<times> app) option" where
  "heartbeat_unmount timer = None"

text \<open>One firing of the interval: \<^verbatim>\<open>() => { broadcastPlayback(); }\<close> of the captured scope.\<close>

definition heartbeat_tick ::
  "(int \<times> app) option \<Rightarrow> string \<Rightarrow> int \<Rightarrow> backend option \<Rightarrow> store_op list" where
  "heartbeat_tick timer myId now pl =
     (case timer of None \<Rightarrow> [] | Some (period, sc) \<Rightarrow> broadcastPlayback sc myId now pl)"

subsection \<open>Player selection in render\<close>

datatype mounted = MountYouTube string | MountHtml5 string

text \<open>
  \<^verbatim>\<open>usingYT && ytId ? <YouTubePlayer videoId={ytId}/> : <Html5Player url={videoUrl}/>\<close>,
  with \<^verbatim>\<open>ytId = usingYT ? extractYouTubeId(videoUrl) : null\<close>; \<open>parsed\<close> is the outcome of
  \<^verbatim>\<open>new URL(videoUrl)\<close>.
\<close>

definition select_player :: "string \<Rightarrow> URL option \<Rightarrow> mounted" where
  "select_player vurl parsed =
     (let usingYT = isYouTubeUrl vurl;
          ytId = (if usingYT then extractYouTubeId parsed else None)
      in case ytId of
           None \<Rightarrow> MountHtml5 vurl
         | Some i \<Rightarrow> if usingYT \<and> i \<noteq> [] then MountYouTube i else MountHtml5 vurl)"

text \<open>
  The handle right after the chosen component has mounted. The native-media component
  starts with \<^verbatim>\<open>needUserStart\<close> false and \<^verbatim>\<open>lastError\<close> null, over an element that is
  paused at 0; the widget component starts not ready (state -1 is the widget's
  "unstarted"). \<open>allowed\<close> is the browser's autoplay answer. \<open>error_shown\<close> is what the
  component displays as an error: the native one its \<^verbatim>\<open>lastError\<close>, the widget one nothing;
  the App itself has no error display.
\<close>

fun mount :: "bool \<Rightarrow> mounted \<Rightarrow> backend" where
  "mount allowed (MountHtml5 url) =
     Html5 \<lparr>h_currentTime = 0, h_paused = True, h_ended = False, h_muted = False,
       h_suppress = False, h_timers = 0, h_allowed = allowed, needUserStart = False,
       lastError = None\<rparr>"
| "mount allowed (MountYouTube i) =
     YouTube \<lparr>y_ready = False, y_suppress = False, y_timers = 0, y_time = 0, y_state = - 1\<rparr>"

fun error_shown :: "backend \<Rightarrow> string option" where
  "error_shown (Html5 v) = lastError v"
| "error_shown (YouTube y) = None"

subsection \<open>Positions of a match of the embed pattern\<close>

text \<open>
  Position \<open>k\<close> of \<open>s\<close> starts a match of \<^verbatim>\<open>/\/embed\/([\w-]+)/\<close>: the seven characters
  from \<open>k\<close> are \<^verbatim>\<open>/embed/\<close> and the next one is an identifier character.
\<close>

definition embed_at :: "string \<Rightarrow> nat \<Rightarrow> bool" where
  "embed_at s k =
     (take 7 (drop k s) = ''/embed/'' \<and> k + 7 < length s \<and> word_char (s ! (k + 7)))"

subsection \<open>Concrete clients used in the scenarios\<close>

definition host_yt :: app where
  "host_yt = \<lparr>roomId = ''r1'', isHost = True, videoUrl = ''https://youtu.be/abc'',
     allowEveryone = False, canControl = True, viewerReady = False, isPlaying = True,
     remoteTime = 100, lastUpdateMs = 1000000, nickname = ''Host'', createUrl = []\<rparr>"

definition guest_yt :: app where
  "guest_yt = host_yt\<lparr>isHost := False, canControl := False, nickname := ''Guest''\<rparr>"

definition guest_mp4 :: app where
  "guest_mp4 = guest_yt\<lparr>videoUrl := ''https://example.com/video.mp4''\<rparr>"

definition remote_playing :: playback where
  "remote_playing = \<lparr>pb_isPlaying = True, pb_currentTime = 100, pb_updatedAt = 1000000,
     pb_by = ''peer''\<rparr>"

definition yt_at :: "real \<Rightarrow> int \<Rightarrow> backend" where
  "yt_at t code = YouTube \<lparr>y_ready = True, y_suppress = False, y_timers = 0, y_time = t,
     y_state = code\<rparr>"

definition html5_at :: "real \<Rightarrow> bool \<Rightarrow> backend" where
  "html5_at t paused = Html5 \<lparr>h_currentTime = t, h_paused = paused, h_ended = False,
     h_muted = False, h_suppress = False, h_timers = 0, h_allowed = True,
     needUserStart = False, lastError = None\<rparr>"

definition room_r1 :: room where
  "room_r1 = \<lparr>room_videoUrl = Some ''https://youtu.be/abc'', room_hostId = Some ''host'',
     room_allowEveryoneControl = Some False, room_createdAt = Some 999000\<rparr>"

definition store_r1 :: store where
  "store_r1 = \<lparr>rooms = [''r1'' \<mapsto> room_r1], playbacks = [''r1'' \<mapsto> remote_playing]\<rparr>"

definition landing :: app where
  "landing = \<lparr>roomId = [], isHost = False, videoUrl = [], allowEveryone = False,
     canControl = False, viewerReady = False, isPlaying = False, remoteTime = 0,
     lastUpdateMs = 0, nickname = ''Host'', createUrl = '' https://youtu.be/abc123 ''\<rparr>"

text \<open>The first render of a client that opened the link \<^verbatim>\<open>?room=r1\<close>.\<close>

definition joiner :: app where
  "joiner = \<lparr>roomId = ''r1'', isHost = False, videoUrl = [], allowEveryone = False,
     canControl = False, viewerReady = False, isPlaying = False, remoteTime = 0,
     lastUpdateMs = 0, nickname = ''Guest'', createUrl = []\<rparr>"

definition empty_store :: store where
  "empty_store = \<lparr>rooms = Map.empty, playbacks = Map.empty\<rparr>"

text \<open>A native element on which the browser refuses \<^verbatim>\<open>play()\<close> outside a user gesture.\<close>

definition html5_blocked :: backend where
  "html5_blocked = Html5 \<lparr>h_currentTime = 0, h_paused = True, h_ended = False,
     h_muted = False, h_suppress = False, h_timers = 0, h_allowed = False,
     needUserStart = False, lastError = None\<rparr>"

definition paused_at_075 :: playback where
  "paused_at_075 = \<lparr>pb_isPlaying = False, pb_currentTime = 3 / 4, pb_updatedAt = 1000000,
     pb_by = ''peer''\<rparr>"

definition playing_at_075 :: playback where
  "playing_at_075 = \<lparr>pb_isPlaying = True, pb_currentTime = 3 / 4, pb_updatedAt = 1000000,
     pb_by = ''peer''\<rparr>"

definition host_fallback :: app where
  "host_fallback = host_yt\<lparr>videoUrl := ''https://example.com/youtube.com/clip.mp4''\<rparr>"

definition guest_fallback :: app where
  "guest_fallback = guest_yt\<lparr>videoUrl := ''https://example.com/youtube.com/clip.mp4''\<rparr>"

definition guest_shorts :: app where
  "guest_shorts = guest_yt\<lparr>videoUrl := ''https://www.youtube.com/shorts/abc123''\<rparr>"

text \<open>
  What \<^verbatim>\<open>new URL\<close> yields for \<^verbatim>\<open>https://youtu.be/abc123\<close>,
  \<^verbatim>\<open>https://www.youtube.com/watch?v=abc123\<close>, \<^verbatim>\<open>https://www.youtube.com/embed/abc123\<close>,
  \<^verbatim>\<open>https://www.youtube.com/shorts/abc123\<close>, \<^verbatim>\<open>https://example.com/video.mp4\<close> and
  \<^verbatim>\<open>https://example.com/youtube.com/clip.mp4\<close>.
\<close>

definition url_short :: URL where
  "url_short = \<lparr>hostname = ''youtu.be'', pathname = ''/abc123'', searchParams = []\<rparr>"

definition url_watch :: URL where
  "url_watch = \<lparr>hostname = ''www.youtube.com'', pathname = ''/watch'',
     searchParams = [(''v'', ''abc123'')]\<rparr>"

definition url_embed :: URL where
  "url_embed = \<lparr>hostname = ''www.youtube.com'', pathname = ''/embed/abc123'',
     searchParams = []\<rparr>"

definition url_shorts :: URL where
  "url_shorts = \<lparr>hostname = ''www.youtube.com'', pathname = ''/shorts/abc123'',
     searchParams = []\<rparr>"

definition url_mp4 :: URL where
  "url_mp4 = \<lparr>hostname = ''example.com'', pathname = ''/video.mp4'', searchParams = []\<rparr>"

definition url_fallback :: URL where
  "url_fallback = \<lparr>hostname = ''example.com'', pathname = ''/youtube.com/clip.mp4'',
     searchParams = []\<rparr>"

subsection \<open>The heartbeat condition and the invariant of its interval\<close>

definition heartbeat_armed :: "app \<Rightarrow> bool" where
  "heartbeat_armed st =
     (roomId st \<noteq> [] \<and> canControl st \<and> isPlaying st
      \<and> (isYouTubeUrl (videoUrl st) \<or> viewerReady st))"

text \<open>
  An interval is set exactly when the state of the latest render arms it, and its
  callback closes over a scope that agrees with that state on the effect's dependencies.
\<close>

definition heartbeat_inv :: "app \<Rightarrow> (int \<times> app) option \<Rightarrow> bool" where
  "heartbeat_inv st timer =
     (case timer of
        None \<Rightarrow> \<not> heartbeat_armed st
      | Some (period, sc) \<Rightarrow>
          period = HEARTBEAT_PERIOD_MS \<and> heartbeat_armed st \<and> heartbeat_deps sc = heartbeat_deps st)"

section \<open>Properties\<close>


text \<open>
  C3. For every Room record delivered by the live subscription (and by the initial
  fetch) and every local participant id, the derived \<open>canControl\<close> is true exactly when
  the participant is the room's host or the room allows everyone to control; the value is
  recomputed from the delivered record alone, whatever the state was before.
\<close>

theorem canControl_recomputed:
  "canControl (onRoomValue myId (Some r) st)
     = (room_hostId r = Some myId \<or> room_allowEveryoneControl r = Some True)
   \<and> canControl (onRoomGet myId (Some r) st)
     = (room_hostId r = Some myId \<or> room_allowEveryoneControl r = Some True)"
  by (cases "room_allowEveryoneControl r") (auto simp: onRoomValue_def onRoomGet_def)



subsection \<open>Auxiliary facts\<close>

lemma or0_id: "or0 x = x"
  by (simp add: or0_def)

lemma or0i_id: "or0i x = x"
  by (simp add: or0i_def)

lemma player_isPlaying_seek: "player_isPlaying (seek s b) = player_isPlaying b"
  by (cases b) simp_all

lemma isYouTubeUrl_short: "isYouTubeUrl ''https://youtu.be/abc''"
  by (simp add: isYouTubeUrl_def)

lemma not_isYouTubeUrl_mp4: "\<not> isYouTubeUrl ''https://example.com/video.mp4''"
  by (simp add: isYouTubeUrl_def)

lemma isYouTubeUrl_fallback: "isYouTubeUrl ''https://example.com/youtube.com/clip.mp4''"
  by (simp add: isYouTubeUrl_def)

text \<open>Rounding leaves an integer below 2 to the power 53 as it is.\<close>

lemma bit_length_bounds: "n \<noteq> 0 \<Longrightarrow> 2 ^ (bit_length n - 1) \<le> n \<and> n < 2 ^ bit_length n"
proof (induction n rule: bit_length.induct)
  case (1 n)
  show ?case
  proof (cases "n div 2 = 0")
    case True
    with "1.prems" have "n = 1" by auto
    then show ?thesis by (simp add: bit_length.simps)
  next
    case False
    from "1.IH" [OF "1.prems" False]
    have ih: "2 ^ (bit_length (n div 2) - 1) \<le> n div 2" "n div 2 < 2 ^ bit_length (n div 2)"
      by auto
    have bl: "bit_length n = Suc (bit_length (n div 2))"
      using "1.prems" by (subst bit_length.simps) simp
    have pos: "bit_length (n div 2) \<noteq> 0"
      using False by (subst bit_length.simps) simp
    then obtain k where k: "bit_length (n div 2) = Suc k" by (cases "bit_length (n div 2)") auto
    from ih k have "2 * 2 ^ k \<le> n" "n < 2 * 2 ^ Suc k" by auto
    then show ?thesis by (simp add: bl k)
  qed
qed

lemma bit_length_pos: "n \<noteq> 0 \<Longrightarrow> 0 < bit_length n"
  by (subst bit_length.simps) simp

lemma bit_length_le: "n < 2 ^ k \<Longrightarrow> bit_length n \<le> k"
proof (cases "n = 0")
  case True
  then show ?thesis by (simp add: bit_length.simps)
next
  case False
  assume "n < 2 ^ k"
  with bit_length_bounds [OF False] have "(2::nat) ^ (bit_length n - 1) < 2 ^ k"
    by (meson le_less_trans)
  then have "bit_length n - 1 < k"
    by (rule power_less_imp_less_exp [rotated]) simp
  then show ?thesis by simp
qed

lemma round_half_even_int: "round_half_even (of_int n) = n"
  by (simp add: round_half_even_def)

lemma fl_of_nat:
  assumes "n < 2 ^ 53"
  shows "fl (real n) = real n"
proof (cases "n = 0")
  case True
  then show ?thesis by (simp add: fl_def)
next
  case False
  define e where "e = int (bit_length n) - 1"
  have e0: "0 \<le> e" using bit_length_pos [OF False] by (simp add: e_def)
  have e52: "e \<le> 52" using bit_length_le [OF assms] by (simp add: e_def)
  have ab: "\<bar>real n\<bar> = real n" by simp
  have ex: "exponent (real n) = e"
    using False by (simp add: exponent_def e_def)
  define k where "k = nat (52 - e)"
  have q: "max (exponent (real n) - 52) (- 1074) = - int k"
    using e0 e52 by (simp add: ex k_def)
  have sc: "scale2 (real n) (- (- int k)) = of_int (int (n * 2 ^ k))"
    by (simp add: scale2_def)
  have bk: "scale2 (of_int (int (n * 2 ^ k))) (- int k) = real n"
    by (cases "k = 0") (simp_all add: scale2_def)
  have "fl (real n) = sgn (real n) * real n"
    using False unfolding fl_def Let_def ab q sc round_half_even_int bk by simp
  then show ?thesis using False by simp
qed

lemma fl_minus: "fl (- x) = - fl x"
  by (simp add: fl_def Let_def)

lemma fl_of_int: "\<bar>n\<bar> < 2 ^ 53 \<Longrightarrow> fl (of_int n) = of_int n"
proof (cases "0 \<le> n")
  case True
  assume "\<bar>n\<bar> < 2 ^ 53"
  with True have "nat n < 2 ^ 53" by (simp add: nat_less_iff)
  from fl_of_nat [OF this] True show ?thesis by simp
next
  case False
  assume "\<bar>n\<bar> < 2 ^ 53"
  with False have "nat (- n) < 2 ^ 53" by (simp add: nat_less_iff)
  from fl_of_nat [OF this] False have "fl (of_int (- n)) = of_int (- n)" by simp
  then show ?thesis using fl_minus [of "of_int n"] by simp
qed

lemma fl_numeral: "(numeral k :: int) < 2 ^ 53 \<Longrightarrow> fl (numeral k) = numeral k"
  using fl_of_int [of "numeral k"] by simp

lemma fl_zero: "fl 0 = 0"
  by (simp add: fl_def)

lemma fl_one: "fl 1 = 1"
  using fl_of_int [of 1] by simp

text \<open>The threshold is the double written \<^verbatim>\<open>0.6\<close>, a little below 6/10.\<close>

lemma DRIFT_THRESHOLD_value: "DRIFT_THRESHOLD = 5404319552844595 / 2 ^ 53"
  unfolding DRIFT_THRESHOLD_def by code_simp

lemma expected_position_eq:
  "expected_position p now =
     fl (pb_currentTime p
          + (if pb_isPlaying p
             then fl (fl (real_of_int now - real_of_int (pb_updatedAt p)) / 1000) else 0))"
  by (simp add: expected_position_def or0_id or0i_id)

lemma expected_remote_playing: "expected_position remote_playing 1002000 = 102"
  by (simp add: expected_position_eq remote_playing_def fl_numeral)

lemma remote_playing_fields:
  "pb_isPlaying remote_playing" "pb_currentTime remote_playing = 100"
  "pb_updatedAt remote_playing = 1000000"
  by (simp_all add: remote_playing_def)

lemma extract_fallback: "extractYouTubeId (Some url_fallback) = None"
  by (simp add: extractYouTubeId_def url_fallback_def)

lemma select_player_cases:
  "select_player vurl parsed =
     (if isYouTubeUrl vurl \<and> truthy (extractYouTubeId parsed)
      then MountYouTube (the (extractYouTubeId parsed)) else MountHtml5 vurl)"
  by (cases "extractYouTubeId parsed") (auto simp: select_player_def Let_def)



text \<open>The doubles written \<^verbatim>\<open>0.2\<close> and \<^verbatim>\<open>0.15\<close>.\<close>

lemma fl_02: "fl (2 / 10) = 3602879701896397 / 2 ^ 54"
  by code_simp

lemma fl_015: "fl (15 / 100) = 5404319552844595 / 2 ^ 55"
  by code_simp

subsection \<open>Drift reconciliation\<close>

text \<open>
  C1, as amended. Whenever \<^verbatim>\<open>syncToPlayer\<close> runs with a mounted player and finds the source
  URL classified as YouTube or \<open>viewerReady\<close> true, then for every PlaybackState \<open>p\<close> and
  every time \<open>now\<close> (positions of magnitude at most 2 to the power 1000, timestamps safe
  integers) it computes, each operation rounded to a double,
  \<open>expected = p.currentTime + (p.isPlaying ? (now - p.updatedAt) / 1000 : 0)\<close> and
  \<open>drift = |expected - getCurrentTime()|\<close>, and the calls it issues are, in this order:
  \<open>seek(expected)\<close> exactly when \<open>drift > 0.6\<close> (strictly; 0.6 is the double of that
  literal), \<open>play()\<close> exactly when \<open>p\<close> is playing and the controller is not, \<open>pause()\<close>
  exactly when \<open>p\<close> is not playing and the controller is.
\<close>

theorem reconcile_when_gate_open:
  assumes "isYouTubeUrl (videoUrl st) \<or> viewerReady st"
    and "in_range (pb_currentTime p)" and "in_range (getCurrentTime b)"
    and "safe_ms now" and "safe_ms (pb_updatedAt p)"
  shows "fst (syncToPlayer st now (Some p) (Some b)) =
           (if \<bar>fl (expected_position p now - getCurrentTime b)\<bar> > DRIFT_THRESHOLD
            then [Seek (expected_position p now)] else [])
         @ (if pb_isPlaying p \<and> \<not> player_isPlaying b then [Play] else [])
         @ (if \<not> pb_isPlaying p \<and> player_isPlaying b then [Pause] else [])
       \<and> expected_position p now =
           fl (pb_currentTime p
                + (if pb_isPlaying p
                   then fl (fl (real_of_int now - real_of_int (pb_updatedAt p)) / 1000) else 0))
       \<and> DRIFT_THRESHOLD = 5404319552844595 / 2 ^ 53"
proof -
  have 1: "fst (syncToPlayer st now (Some p) (Some b)) =
           (if \<bar>fl (expected_position p now - getCurrentTime b)\<bar> > DRIFT_THRESHOLD
            then [Seek (expected_position p now)] else [])
         @ (if pb_isPlaying p \<and> \<not> player_isPlaying b then [Play] else [])
         @ (if \<not> pb_isPlaying p \<and> player_isPlaying b then [Pause] else [])"
    using assms(1) by (auto simp: syncToPlayer_def Let_def player_isPlaying_seek)
  from 1 expected_position_eq DRIFT_THRESHOLD_value show ?thesis by (intro conjI)
qed

text \<open>
  The deadband scenario: a state published at \<open>T\<close> with position 100, playing, observed at
  \<open>T + 2000\<close> ms; a controller at 101.5 is left alone, one at 99.0 is sought to 102.0.
  At the edge of the deadband the rounding decides: a paused state at 0.75 against a
  paused controller at the double 0.15 gives a drift equal to the threshold and no call,
  while a playing state at 0.75 observed 50 ms later against a controller at the double 0.2
  gives a drift just above it and a seek to the double 0.8. The native-media cases run in
  the state that the start gesture leaves (\<open>viewerReady\<close> true).
\<close>

theorem reconcile_when_gate_open_witness:
  "fst (syncToPlayer host_yt 1002000 (Some remote_playing) (Some (yt_at (203 / 2) 1))) = []
   \<and> fst (syncToPlayer host_yt 1002000 (Some remote_playing) (Some (yt_at 99 1))) = [Seek 102]
   \<and> fst (syncToPlayer host_yt 1000050 (Some playing_at_075) (Some (yt_at (3602879701896397 / 2 ^ 54) 1)))
       = [Seek (3602879701896397 / 2 ^ 52)]
   \<and> snd (click_start True (play html5_blocked) guest_fallback)
       = guest_fallback\<lparr>viewerReady := True\<rparr>
   \<and> fst (syncToPlayer (guest_fallback\<lparr>viewerReady := True\<rparr>) 1002000 (Some paused_at_075)
          (Some (html5_at (5404319552844595 / 2 ^ 55) True))) = []
   \<and> fst (syncToPlayer (guest_mp4\<lparr>viewerReady := True\<rparr>) 1002000 (Some remote_playing)
          (Some (html5_at 99 False))) = [Seek 102]"
proof -
  have g: "isYouTubeUrl (videoUrl host_yt) \<or> viewerReady host_yt"
    by (simp add: host_yt_def isYouTubeUrl_short)
  have g': "isYouTubeUrl (videoUrl (guest_fallback\<lparr>viewerReady := True\<rparr>))
      \<or> viewerReady (guest_fallback\<lparr>viewerReady := True\<rparr>)"
    by simp
  have g'': "isYouTubeUrl (videoUrl (guest_mp4\<lparr>viewerReady := True\<rparr>))
      \<or> viewerReady (guest_mp4\<lparr>viewerReady := True\<rparr>)"
    by simp
  have r: "in_range (pb_currentTime remote_playing)" "in_range (pb_currentTime paused_at_075)"
    "in_range (pb_currentTime playing_at_075)"
    "in_range (getCurrentTime (yt_at (203 / 2) 1))" "in_range (getCurrentTime (yt_at 99 1))"
    "in_range (getCurrentTime (html5_at 99 False))"
    by (simp_all add: in_range_def remote_playing_def paused_at_075_def playing_at_075_def
        yt_at_def html5_at_def or0_id)
  have r': "in_range (getCurrentTime (yt_at (3602879701896397 / 2 ^ 54) 1))"
    "in_range (getCurrentTime (html5_at (5404319552844595 / 2 ^ 55) True))"
    by (simp_all add: in_range_def yt_at_def html5_at_def or0_id)
  have m: "safe_ms 1002000" "safe_ms 1000050" "safe_ms (pb_updatedAt remote_playing)"
    "safe_ms (pb_updatedAt paused_at_075)" "safe_ms (pb_updatedAt playing_at_075)"
    by (simp_all add: safe_ms_def remote_playing_def paused_at_075_def playing_at_075_def)
  note a1 = reconcile_when_gate_open [OF g r(1) r(4) m(1) m(3), THEN conjunct1]
  note a2 = reconcile_when_gate_open [OF g r(1) r(5) m(1) m(3), THEN conjunct1]
  note a3 = reconcile_when_gate_open [OF g r(3) r'(1) m(2) m(5), THEN conjunct1]
  note a4 = reconcile_when_gate_open [OF g' r(2) r'(2) m(1) m(4), THEN conjunct1]
  note a5 = reconcile_when_gate_open [OF g'' r(1) r(6) m(1) m(3), THEN conjunct1]
  have c: "snd (click_start True (play html5_blocked) guest_fallback)
       = guest_fallback\<lparr>viewerReady := True\<rparr>"
    by (simp add: html5_blocked_def userStart_def)
  have e3: "expected_position playing_at_075 1000050 = 3602879701896397 / 2 ^ 52"
    by code_simp
  have e4: "expected_position paused_at_075 1002000 = 3 / 4"
    by code_simp
  have d1: "\<not> \<bar>fl (102 - 203 / 2)\<bar> > DRIFT_THRESHOLD"
    by code_simp
  have d2: "\<bar>fl (102 - 99)\<bar> > DRIFT_THRESHOLD"
    by (simp add: fl_numeral DRIFT_THRESHOLD_value)
  have d3: "\<bar>fl (3602879701896397 / 2 ^ 52 - 3602879701896397 / 2 ^ 54)\<bar> > DRIFT_THRESHOLD"
    by code_simp
  have d4: "\<not> \<bar>fl (3 / 4 - 5404319552844595 / 2 ^ 55)\<bar> > DRIFT_THRESHOLD"
    by code_simp
  have 1: "fst (syncToPlayer host_yt 1002000 (Some remote_playing) (Some (yt_at (203 / 2) 1))) = []"
    unfolding a1 expected_remote_playing using d1 by (simp add: yt_at_def remote_playing_def)
  have 2: "fst (syncToPlayer host_yt 1002000 (Some remote_playing) (Some (yt_at 99 1))) = [Seek 102]"
    unfolding a2 expected_remote_playing using d2 by (simp add: yt_at_def remote_playing_def)
  have 3: "fst (syncToPlayer host_yt 1000050 (Some playing_at_075)
          (Some (yt_at (3602879701896397 / 2 ^ 54) 1)))
       = [Seek (3602879701896397 / 2 ^ 52)]"
    unfolding a3 e3 using d3 by (simp add: yt_at_def playing_at_075_def)
  have 4: "fst (syncToPlayer (guest_fallback\<lparr>viewerReady := True\<rparr>) 1002000 (Some paused_at_075)
          (Some (html5_at (5404319552844595 / 2 ^ 55) True))) = []"
    unfolding a4 e4 using d4 by (simp add: html5_at_def paused_at_075_def or0_id)
  have 5: "fst (syncToPlayer (guest_mp4\<lparr>viewerReady := True\<rparr>) 1002000 (Some remote_playing)
          (Some (html5_at 99 False))) = [Seek 102]"
    unfolding a5 expected_remote_playing using d2
    by (simp add: html5_at_def remote_playing_def or0_id)
  from 1 2 3 c 4 5 show ?thesis by (intro conjI)
qed

text \<open>
  C1 as stated fails where the native-media gate is closed: a direct-media room, the
  viewer has not started yet, the drift is 3 seconds, and no call is issued.
\<close>

theorem reconcile_gated_counterexample:
  "\<bar>fl (expected_position remote_playing 1002000 - getCurrentTime (html5_at 99 False))\<bar>
     > DRIFT_THRESHOLD
   \<and> fst (syncToPlayer guest_mp4 1002000 (Some remote_playing) (Some (html5_at 99 False))) = []"
  by (simp add: expected_remote_playing html5_at_def or0_id syncToPlayer_def fl_numeral
      DRIFT_THRESHOLD_value guest_mp4_def guest_yt_def host_yt_def not_isYouTubeUrl_mp4)


subsection \<open>Control authority as the enforcement point\<close>

text \<open>
  C4. In a scope where \<open>canControl\<close> is false, \<^verbatim>\<open>handlePlay\<close>, \<^verbatim>\<open>handlePause\<close> and
  \<^verbatim>\<open>handleSeekDelta\<close> issue no store write and no call on the player (the handle is left
  as it was), \<^verbatim>\<open>broadcastPlayback\<close> itself issues no write, and so neither does any
  local-event callback, including \<^verbatim>\<open>onLocalSeek\<close>, which is wired to
  \<^verbatim>\<open>broadcastPlayback\<close> directly.
\<close>

theorem no_authority_no_effect:
  "\<not> canControl st \<Longrightarrow>
     handlePlay st myId now pl = []
   \<and> handlePause st myId now pl = []
   \<and> handleSeekDelta st myId now d pl = ([], pl, [])
   \<and> broadcastPlayback st myId now pl = []
   \<and> on_notification st myId now pl n = []"
  by (cases n)
    (simp_all add: handlePlay_def handlePause_def handleSeekDelta_def broadcastPlayback_def)

theorem no_authority_no_effect_witness:
  "\<not> canControl guest_yt
   \<and> handlePlay guest_yt ''me'' 5000 (Some (yt_at 12 1)) = []
   \<and> handlePause guest_yt ''me'' 5000 (Some (yt_at 12 1)) = []
   \<and> handleSeekDelta guest_yt ''me'' 5000 10 (Some (yt_at 12 1)) = ([], Some (yt_at 12 1), [])
   \<and> broadcastPlayback guest_yt ''me'' 5000 (Some (yt_at 12 1)) = []
   \<and> on_notification guest_yt ''me'' 5000 (Some (yt_at 12 1)) (LocalSeek 3) = []"
proof -
  have h: "\<not> canControl guest_yt"
    by (simp add: guest_yt_def host_yt_def)
  show ?thesis
    using h no_authority_no_effect [OF h, of "''me''" 5000 "Some (yt_at 12 1)" 10 "LocalSeek 3"]
    by simp
qed

subsection \<open>Toggling open control\<close>

text \<open>
  C9. \<^verbatim>\<open>toggleEveryoneControl\<close> issues no write when the local participant is not the
  host, so the store, and the Room record in it, stay as they are. When the host runs it
  in a room whose record is \<open>r\<close>, the record afterwards differs from \<open>r\<close> in
  \<open>allowEveryoneControl\<close> only (\<open>videoUrl\<close>, \<open>hostId\<close> and \<open>createdAt\<close> are unchanged), no
  other room is touched and no PlaybackState is touched.
\<close>

theorem toggle_only_by_host:
  "(\<not> isHost st \<longrightarrow>
      toggleEveryoneControl st = [] \<and> apply_writes (toggleEveryoneControl st) db = db)
   \<and> (isHost st \<and> roomId st \<noteq> [] \<and> rooms db (roomId st) = Some r \<longrightarrow>
        (\<exists>r'. rooms (apply_writes (toggleEveryoneControl st) db) (roomId st) = Some r'
           \<and> room_allowEveryoneControl r' = Some (\<not> allowEveryone st)
           \<and> room_videoUrl r' = room_videoUrl r
           \<and> room_hostId r' = room_hostId r
           \<and> room_createdAt r' = room_createdAt r)
        \<and> (\<forall>k. k \<noteq> roomId st \<longrightarrow>
              rooms (apply_writes (toggleEveryoneControl st) db) k = rooms db k)
        \<and> playbacks (apply_writes (toggleEveryoneControl st) db) = playbacks db)"
  by (simp add: toggleEveryoneControl_def)

theorem toggle_only_by_host_witness:
  "\<not> isHost guest_yt
   \<and> apply_writes (toggleEveryoneControl guest_yt) store_r1 = store_r1
   \<and> isHost host_yt \<and> roomId host_yt \<noteq> [] \<and> rooms store_r1 (roomId host_yt) = Some room_r1
   \<and> rooms (apply_writes (toggleEveryoneControl host_yt) store_r1) ''r1''
        = Some (room_r1\<lparr>room_allowEveryoneControl := Some True\<rparr>)
   \<and> playbacks (apply_writes (toggleEveryoneControl host_yt) store_r1) = playbacks store_r1"
proof -
  have g: "\<not> isHost guest_yt"
    by (simp add: guest_yt_def host_yt_def)
  have h: "isHost host_yt \<and> roomId host_yt \<noteq> [] \<and> rooms store_r1 (roomId host_yt) = Some room_r1"
    by (simp add: host_yt_def store_r1_def)
  have r: "roomId host_yt = ''r1''" "allowEveryone host_yt = False"
    by (simp_all add: host_yt_def)
  from toggle_only_by_host [where st = guest_yt and db = store_r1] g
  have a: "apply_writes (toggleEveryoneControl guest_yt) store_r1 = store_r1"
    by blast
  from toggle_only_by_host [where st = host_yt and db = store_r1 and r = room_r1] h
  obtain r' where
    b: "rooms (apply_writes (toggleEveryoneControl host_yt) store_r1) (roomId host_yt) = Some r'"
      "room_allowEveryoneControl r' = Some (\<not> allowEveryone host_yt)"
      "room_videoUrl r' = room_videoUrl room_r1"
      "room_hostId r' = room_hostId room_r1"
      "room_createdAt r' = room_createdAt room_r1"
    and c: "playbacks (apply_writes (toggleEveryoneControl host_yt) store_r1) = playbacks store_r1"
    by blast
  have "r' = room_r1\<lparr>room_allowEveryoneControl := Some True\<rparr>"
    using b(2-5) r by (cases r') (simp add: room_r1_def)
  with a b(1) c g h r show ?thesis by simp
qed


subsection \<open>Suppression of local-event notifications\<close>

text \<open>
  The mechanism: \<^verbatim>\<open>seek\<close> raises the flag before it moves the head (the widget handle
  does either only when ready), a raised flag silences every listener, and the first
  scheduled callback to run lowers it.
\<close>

lemma seek_raises_flag:
  "suppressed (seek s (Html5 v)) \<and> (y_ready y \<longrightarrow> suppressed (seek s (YouTube y)))
   \<and> (\<not> y_ready y \<longrightarrow> seek s (YouTube y) = YouTube y)"
  by simp

lemma suppressed_observe: "suppressed (observe e b) = suppressed b"
  by (cases e; cases b) simp_all

lemma suppressed_silent: "suppressed b \<Longrightarrow> notify b e = None"
  by (cases b; cases e) simp_all

lemma suppressed_no_publish:
  "suppressed b \<Longrightarrow> snd (on_media_event st myId now e b) = []"
  by (simp add: on_media_event_def suppressed_silent suppressed_observe)

lemma timeout_after_seek_clears:
  "\<not> suppressed (timeout_fires (seek s (Html5 v)))
   \<and> (y_ready y \<longrightarrow> \<not> suppressed (timeout_fires (seek s (YouTube y))))"
  by simp

text \<open>
  Until the callback has run, nothing that the backend reports, however much of it,
  leads to a write.
\<close>

lemma suppressed_media_event:
  "suppressed b \<Longrightarrow> on_media_event st myId now e b = (observe e b, [])"
  by (simp add: on_media_event_def suppressed_silent suppressed_observe)

lemma no_publish_before_timeout:
  "suppressed b \<Longrightarrow> \<forall>x \<in> set xs. snd x \<noteq> Timeout \<Longrightarrow> snd (run st myId xs b) = []"
proof (induction xs arbitrary: b)
  case Nil
  then show ?case by simp
next
  case (Cons x xs)
  obtain now oc where x: "x = (now, oc)" by (cases x)
  with Cons.prems(2) obtain e where oc: "oc = Media e" by (cases oc) auto
  have s: "suppressed (observe e b)"
    using Cons.prems(1) by (simp add: suppressed_observe)
  have "snd (run st myId xs (observe e b)) = []"
    using Cons.IH [OF s] Cons.prems(2) by simp
  then show ?case
    using Cons.prems(1) by (simp add: x oc suppressed_media_event split: prod.splits)
qed


text \<open>
  C2 at a run the code can take. A client with control authority receives a remote state
  three seconds ahead of its player and the reconciler seeks to 102, which raises the
  flag. The zero-delay callback runs and lowers it; the backend reports the outcome of
  that seek afterwards (the widget its states 3 and then 1, the \<^verbatim>\<open>video\<close> element its
  \<^verbatim>\<open>seeked\<close> event), the listener finds the flag down, and the client publishes a new
  PlaybackState: the seek issued by the reconciler has caused a publish.
\<close>

theorem seek_feedback_after_tick:
  "syncToPlayer host_yt 1002000 (Some remote_playing) (Some (yt_at 99 1))
     = ([Seek 102], Some (seek 102 (yt_at 99 1)))
   \<and> suppressed (seek 102 (yt_at 99 1))
   \<and> run host_yt ''me''
        [(1002001, Timeout), (1002200, Media (YTStateChange 3)), (1002300, Media (YTStateChange 1))]
        (seek 102 (yt_at 99 1))
     = (yt_at 102 1,
        [UpdatePlayback ''r1'' \<lparr>pb_isPlaying = True, pb_currentTime = 102,
           pb_updatedAt = 1002300, pb_by = ''me''\<rparr>])
   \<and> syncToPlayer host_fallback 1002000 (Some remote_playing) (Some (html5_at 99 False))
     = ([Seek 102], Some (seek 102 (html5_at 99 False)))
   \<and> suppressed (seek 102 (html5_at 99 False))
   \<and> run host_fallback ''me'' [(1002001, Timeout), (1002300, Media EvSeeked)]
        (seek 102 (html5_at 99 False))
     = (html5_at 102 False,
        [UpdatePlayback ''r1'' \<lparr>pb_isPlaying = True, pb_currentTime = 102,
           pb_updatedAt = 1002300, pb_by = ''me''\<rparr>])"
  by (simp add: syncToPlayer_def host_yt_def host_fallback_def isYouTubeUrl_short
      isYouTubeUrl_fallback expected_remote_playing remote_playing_fields yt_at_def
      html5_at_def fl_numeral
      DRIFT_THRESHOLD_value on_media_event_def handlePlay_def broadcastPlayback_def or0_id
      Let_def)



subsection \<open>Room creation\<close>

lemma trim_landing: "trim (createUrl landing) = ''https://youtu.be/abc123''"
  by (simp add: trim_def landing_def white_space_def)

text \<open>
  C8, as amended. Room creation issues two successive writes: the Room record (the
  trimmed URL, \<open>hostId\<close> the creator's id, \<open>allowEveryoneControl = false\<close>, \<open>createdAt\<close>)
  and then the initial PlaybackState (\<open>isPlaying = false\<close>, position 0). When the store
  accepts both, both are in the store before the session moves into the room; when the
  URL is blank or the store rejects either write, the session stays where it was.
\<close>

theorem create_room_two_writes:
  "(trim (createUrl st) \<noteq> [] \<and> ok1 \<and> ok2 \<longrightarrow>
      fst (handleCreateRoom st myId newId t1 t2 ok1 ok2)
        = [SetRoom newId \<lparr>room_videoUrl = Some (trim (createUrl st)), room_hostId = Some myId,
             room_allowEveryoneControl = Some False, room_createdAt = Some t1\<rparr>,
           SetPlayback newId \<lparr>pb_isPlaying = False, pb_currentTime = 0, pb_updatedAt = t2,
             pb_by = myId\<rparr>]
      \<and> rooms (apply_writes (fst (handleCreateRoom st myId newId t1 t2 ok1 ok2)) db) newId
        = Some \<lparr>room_videoUrl = Some (trim (createUrl st)), room_hostId = Some myId,
             room_allowEveryoneControl = Some False, room_createdAt = Some t1\<rparr>
      \<and> playbacks (apply_writes (fst (handleCreateRoom st myId newId t1 t2 ok1 ok2)) db) newId
        = Some \<lparr>pb_isPlaying = False, pb_currentTime = 0, pb_updatedAt = t2, pb_by = myId\<rparr>
      \<and> snd (handleCreateRoom st myId newId t1 t2 ok1 ok2)
        = st\<lparr>roomId := newId, videoUrl := trim (createUrl st), isHost := True,
             allowEveryone := False, canControl := True, viewerReady := False\<rparr>)
   \<and> (\<not> (trim (createUrl st) \<noteq> [] \<and> ok1 \<and> ok2) \<longrightarrow>
        snd (handleCreateRoom st myId newId t1 t2 ok1 ok2) = st)"
  by (simp add: handleCreateRoom_def Let_def)

theorem create_room_two_writes_witness:
  "rooms (apply_writes (fst (handleCreateRoom landing ''me'' ''room000001'' 5000 5040 True True))
       empty_store) ''room000001''
     = Some \<lparr>room_videoUrl = Some ''https://youtu.be/abc123'', room_hostId = Some ''me'',
              room_allowEveryoneControl = Some False, room_createdAt = Some 5000\<rparr>
   \<and> playbacks (apply_writes (fst (handleCreateRoom landing ''me'' ''room000001'' 5000 5040 True True))
       empty_store) ''room000001''
     = Some \<lparr>pb_isPlaying = False, pb_currentTime = 0, pb_updatedAt = 5040, pb_by = ''me''\<rparr>
   \<and> roomId (snd (handleCreateRoom landing ''me'' ''room000001'' 5000 5040 True True)) = ''room000001''
   \<and> snd (handleCreateRoom landing ''me'' ''room000001'' 5000 5040 True False) = landing"
proof -
  have h: "trim (createUrl landing) \<noteq> [] \<and> True \<and> True"
    by (simp add: trim_landing)
  have n: "\<not> (trim (createUrl landing) \<noteq> [] \<and> True \<and> False)"
    by simp
  note a = create_room_two_writes [where st = landing and myId = "''me''"
      and newId = "''room000001''" and ?t1.0 = 5000 and ?t2.0 = 5040 and ?ok1.0 = True and ?ok2.0 = True
      and db = empty_store]
  note b = create_room_two_writes [where st = landing and myId = "''me''"
      and newId = "''room000001''" and ?t1.0 = 5000 and ?t2.0 = 5040 and ?ok1.0 = True and ?ok2.0 = False]
  from a h b n show ?thesis by (simp add: trim_landing)
qed

text \<open>
  C8 as stated fails on "a single logical unit": after the first accepted write the store
  holds the Room record without a PlaybackState, which is what a listener already
  attached to that room id is shown; and when the second write is rejected the store
  stays so.
\<close>

theorem create_room_intermediate_counterexample:
  "rooms (hd (store_trace (fst (handleCreateRoom landing ''me'' ''room000001'' 5000 5040 True True))
       empty_store)) ''room000001''
     = Some \<lparr>room_videoUrl = Some ''https://youtu.be/abc123'', room_hostId = Some ''me'',
              room_allowEveryoneControl = Some False, room_createdAt = Some 5000\<rparr>
   \<and> playbacks (hd (store_trace (fst (handleCreateRoom landing ''me'' ''room000001'' 5000 5040 True True))
       empty_store)) ''room000001'' = None
   \<and> playbacks (apply_writes (fst (handleCreateRoom landing ''me'' ''room000001'' 5000 5040 True False))
       empty_store) ''room000001'' = None
   \<and> rooms (apply_writes (fst (handleCreateRoom landing ''me'' ''room000001'' 5000 5040 True False))
       empty_store) ''room000001'' \<noteq> None"
  by (simp add: handleCreateRoom_def Let_def trim_landing empty_store_def)


subsection \<open>The native-media gate\<close>

text \<open>
  Where the gate does what is asked: for a source not classified as YouTube and a scope in
  which \<open>viewerReady\<close> is false, an incoming PlaybackState is stored in the three state
  variables and nothing is called on the player; and the join effect resets
  \<open>viewerReady\<close>.
\<close>

lemma native_gate_closed:
  "\<not> isYouTubeUrl (videoUrl sc) \<Longrightarrow> \<not> viewerReady sc \<Longrightarrow>
     onPlaybackValue sc now (Some p) st (Some b)
       = (st\<lparr>isPlaying := pb_isPlaying p, remoteTime := pb_currentTime p,
             lastUpdateMs := pb_updatedAt p\<rparr>, [], Some b)"
  by (simp add: onPlaybackValue_def syncToPlayer_def or0_id or0i_id)

lemma join_resets_viewerReady:
  "roomId st \<noteq> [] \<Longrightarrow> \<not> viewerReady (fst (join_effect st))"
  by (simp add: join_effect_def)

text \<open>
  C7 at an input the code can receive. The room's source is a direct media file whose URL
  contains \<^verbatim>\<open>youtube.com/\<close>, so it is classified as YouTube, no id is extracted and the
  native-media player is the one mounted. The viewer has not started (\<open>viewerReady\<close> is
  false), a remote state arrives, and the listener seeks and starts the native element.
\<close>

theorem fallback_player_synced_before_start:
  "select_player ''https://example.com/youtube.com/clip.mp4'' (Some url_fallback)
     = MountHtml5 ''https://example.com/youtube.com/clip.mp4''
   \<and> \<not> viewerReady guest_fallback
   \<and> onPlaybackValue guest_fallback 1002000 (Some remote_playing) guest_fallback
        (Some (html5_at 0 True))
     = (guest_fallback\<lparr>isPlaying := True, remoteTime := 100, lastUpdateMs := 1000000\<rparr>,
        [Seek 102, Play],
        Some (Html5 \<lparr>h_currentTime = 102, h_paused = False, h_ended = False, h_muted = True,
          h_suppress = True, h_timers = 1, h_allowed = True, needUserStart = False,
          lastError = None\<rparr>))"
  by (simp add: select_player_cases isYouTubeUrl_fallback extract_fallback onPlaybackValue_def
      syncToPlayer_def guest_fallback_def guest_yt_def host_yt_def expected_remote_playing
      remote_playing_fields html5_at_def or0_id or0i_id fl_numeral DRIFT_THRESHOLD_value Let_def)




subsection \<open>What the embedded widget reports\<close>

text \<open>
  C10, as amended. The embedded-widget component never raises \<open>onLocalSeek\<close>: whatever the
  widget reports, the notification is none, \<open>onLocalPlay\<close> or \<open>onLocalPause\<close>, and it is one
  of the latter two only for the state codes 1 and 2. A seek that the user makes inside the
  widget is therefore not reported as a seek; it reaches the store when the widget next
  reports state 1 or 2 to a ready, unsuppressed component of a client with control
  authority, in the PlaybackState which that report publishes and which carries the
  widget's current position. \<open>onLocalSeek\<close> comes from the native-media component alone,
  on its \<^verbatim>\<open>seeked\<close> event.
\<close>

theorem yt_reports_play_pause_only:
  "notify (YouTube y) e \<noteq> Some (LocalSeek t)
   \<and> (notify (YouTube y) e = None \<or> e = YTStateChange 1 \<or> e = YTStateChange 2)
   \<and> snd (on_media_event st myId now (YTStateChange d) (YouTube y))
       = (if y_ready y \<and> \<not> y_suppress y \<and> canControl st \<and> roomId st \<noteq> [] \<and> (d = 1 \<or> d = 2)
          then [UpdatePlayback (roomId st)
                 \<lparr>pb_isPlaying = (d = 1), pb_currentTime = y_time y, pb_updatedAt = now,
                  pb_by = myId\<rparr>]
          else [])
   \<and> snd (on_media_event st myId now YTReady (YouTube y)) = []
   \<and> (notify b e' = Some (LocalSeek t) \<longrightarrow> (\<exists>v. b = Html5 v) \<and> e' = EvSeeked)"
proof -
  have 1: "notify (YouTube y) e \<noteq> Some (LocalSeek t)"
    by (cases e) auto
  have 2: "notify (YouTube y) e = None \<or> e = YTStateChange 1 \<or> e = YTStateChange 2"
    by (cases e) auto
  have 3: "snd (on_media_event st myId now (YTStateChange d) (YouTube y))
       = (if y_ready y \<and> \<not> y_suppress y \<and> canControl st \<and> roomId st \<noteq> [] \<and> (d = 1 \<or> d = 2)
          then [UpdatePlayback (roomId st)
                 \<lparr>pb_isPlaying = (d = 1), pb_currentTime = y_time y, pb_updatedAt = now,
                  pb_by = myId\<rparr>]
          else [])"
    by (auto simp: on_media_event_def handlePlay_def handlePause_def broadcastPlayback_def
        Let_def)
  have 4: "snd (on_media_event st myId now YTReady (YouTube y)) = []"
    by (simp add: on_media_event_def)
  have 5: "notify b e' = Some (LocalSeek t) \<longrightarrow> (\<exists>v. b = Html5 v) \<and> e' = EvSeeked"
    by (cases b; cases e') (auto split: if_splits)
  from 1 2 3 4 5 show ?thesis by (intro conjI)
qed

theorem yt_reports_play_pause_only_witness:
  "notify (html5_at 7 False) EvSeeked = Some (LocalSeek 7)
   \<and> (\<exists>v. html5_at 7 False = Html5 v)
   \<and> notify (yt_at 7 3) (YTStateChange 3) = None
   \<and> notify (yt_at 7 1) (YTStateChange 1) = Some LocalPlay
   \<and> snd (on_media_event host_yt ''me'' 1002300 (YTStateChange 2) (yt_at 7 1))
       = [UpdatePlayback ''r1'' \<lparr>pb_isPlaying = False, pb_currentTime = 7,
            pb_updatedAt = 1002300, pb_by = ''me''\<rparr>]"
proof -
  have h: "notify (html5_at 7 False) EvSeeked = Some (LocalSeek 7)"
    by (simp add: html5_at_def)
  from yt_reports_play_pause_only [where b = "html5_at 7 False" and e' = EvSeeked and t = 7] h
  have a: "\<exists>v. html5_at 7 False = Html5 v" by blast
  have b: "snd (on_media_event host_yt ''me'' 1002300 (YTStateChange 2) (yt_at 7 1))
       = [UpdatePlayback ''r1'' \<lparr>pb_isPlaying = False, pb_currentTime = 7,
            pb_updatedAt = 1002300, pb_by = ''me''\<rparr>]"
    using yt_reports_play_pause_only [where st = host_yt and myId = "''me''" and now = 1002300
        and d = 2 and y = "\<lparr>y_ready = True, y_suppress = False, y_timers = 0, y_time = 7,
          y_state = 1\<rparr>"]
    by (simp add: yt_at_def host_yt_def)
  from h a b show ?thesis by (simp add: yt_at_def)
qed

text \<open>
  C10 as stated fails on "a user seeking inside the embedded widget is never broadcast":
  the user of a client with control authority drags the widget from 99 to 250 seconds
  while it plays; the widget reports buffering (3) and then playing (1), and the second
  report publishes a PlaybackState at 250 seconds.
\<close>

theorem widget_seek_broadcast_counterexample:
  "run host_yt ''me'' [(1002200, Media (YTStateChange 3)), (1002300, Media (YTStateChange 1))]
      (widget_user_seek 250 (yt_at 99 1))
     = (yt_at 250 1,
        [UpdatePlayback ''r1'' \<lparr>pb_isPlaying = True, pb_currentTime = 250,
           pb_updatedAt = 1002300, pb_by = ''me''\<rparr>])"
  by (simp add: yt_at_def host_yt_def on_media_event_def handlePlay_def broadcastPlayback_def)

subsection \<open>Heartbeat\<close>

lemma heartbeat_armed_deps:
  "heartbeat_deps a = heartbeat_deps b \<Longrightarrow> heartbeat_armed a = heartbeat_armed b"
  by (auto simp: heartbeat_deps_def heartbeat_armed_def)

lemma heartbeat_effect_armed:
  "heartbeat_effect st = (if heartbeat_armed st then Some (HEARTBEAT_PERIOD_MS, st) else None)"
  by (auto simp: heartbeat_effect_def heartbeat_armed_def)

lemma heartbeat_inv_mount: "heartbeat_inv st (heartbeat_effect st)"
  by (simp add: heartbeat_inv_def heartbeat_effect_armed)

lemma heartbeat_inv_rerender:
  "heartbeat_inv old timer \<Longrightarrow> heartbeat_inv new (heartbeat_rerender old new timer)"
  by (auto simp: heartbeat_inv_def heartbeat_rerender_def heartbeat_effect_armed
      dest: heartbeat_armed_deps split: option.splits)

text \<open>
  What the effect does with the state it is given: after every render the interval is set,
  with a delay of 3000 ms, exactly when \<open>canControl\<close>, the \<open>isPlaying\<close> state and the gate
  \<^verbatim>\<open>usingYT || viewerReady\<close> hold in a room; a firing publishes when a player is mounted;
  once a render makes the condition false, or the component unmounts, the interval is
  cleared and a firing publishes nothing.
\<close>

lemma heartbeat_follows_state:
  assumes "heartbeat_inv old timer"
  shows "(heartbeat_rerender old new timer \<noteq> None) = heartbeat_armed new
       \<and> (\<forall>period sc. heartbeat_rerender old new timer = Some (period, sc) \<longrightarrow> period = 3000)
       \<and> heartbeat_tick (heartbeat_rerender old new timer) myId now (Some b)
           = (if heartbeat_armed new
              then [UpdatePlayback (roomId new)
                     \<lparr>pb_isPlaying = player_isPlaying b, pb_currentTime = getCurrentTime b,
                      pb_updatedAt = now, pb_by = myId\<rparr>]
              else [])
       \<and> heartbeat_tick (heartbeat_rerender old new timer) myId now None = []
       \<and> heartbeat_tick (heartbeat_unmount (heartbeat_rerender old new timer)) myId now pl = []"
proof -
  have inv: "heartbeat_inv new (heartbeat_rerender old new timer)"
    using assms by (rule heartbeat_inv_rerender)
  have 1: "(heartbeat_rerender old new timer \<noteq> None) = heartbeat_armed new"
    using inv by (auto simp: heartbeat_inv_def split: option.splits)
  have 2: "\<forall>period sc. heartbeat_rerender old new timer = Some (period, sc) \<longrightarrow> period = 3000"
    using inv by (auto simp: heartbeat_inv_def HEARTBEAT_PERIOD_MS_def split: option.splits)
  have 3: "heartbeat_tick (heartbeat_rerender old new timer) myId now (Some b)
           = (if heartbeat_armed new
              then [UpdatePlayback (roomId new)
                     \<lparr>pb_isPlaying = player_isPlaying b, pb_currentTime = getCurrentTime b,
                      pb_updatedAt = now, pb_by = myId\<rparr>]
              else [])"
    using inv
    by (auto simp: heartbeat_inv_def heartbeat_armed_def heartbeat_tick_def heartbeat_deps_def
        broadcastPlayback_def split: option.splits)
  have 4: "heartbeat_tick (heartbeat_rerender old new timer) myId now None = []"
    by (simp add: heartbeat_tick_def broadcastPlayback_def split: option.splits prod.splits)
  have 5: "heartbeat_tick (heartbeat_unmount (heartbeat_rerender old new timer)) myId now pl = []"
    by (simp add: heartbeat_tick_def heartbeat_unmount_def)
  from 1 2 3 4 5 show ?thesis by (intro conjI)
qed

text \<open>
  C5 at inputs the code can receive. A host in a YouTube room whose \<open>isPlaying\<close> state is
  true, because the store last said playing, while the local widget is paused (state 2):
  the 3000 ms interval is set and a firing publishes, although local playback is not
  active, and the state it publishes says \<open>isPlaying = false\<close>. And a host in a room that
  got the native-media player for a URL classified as YouTube: \<open>viewerReady\<close> is false, the
  interval is set all the same, and a firing publishes.
\<close>

theorem heartbeat_without_local_playback:
  "heartbeat_effect host_yt = Some (3000, host_yt)
   \<and> \<not> player_isPlaying (yt_at 50 2)
   \<and> heartbeat_tick (heartbeat_effect host_yt) ''me'' 1003000 (Some (yt_at 50 2))
       = [UpdatePlayback ''r1'' \<lparr>pb_isPlaying = False, pb_currentTime = 50,
            pb_updatedAt = 1003000, pb_by = ''me''\<rparr>]
   \<and> select_player (videoUrl host_fallback) (Some url_fallback)
       = MountHtml5 ''https://example.com/youtube.com/clip.mp4''
   \<and> \<not> viewerReady host_fallback
   \<and> heartbeat_effect host_fallback = Some (3000, host_fallback)
   \<and> heartbeat_tick (heartbeat_effect host_fallback) ''me'' 1003000 (Some (html5_at 50 False))
       = [UpdatePlayback ''r1'' \<lparr>pb_isPlaying = True, pb_currentTime = 50,
            pb_updatedAt = 1003000, pb_by = ''me''\<rparr>]"
  by (simp add: heartbeat_effect_def HEARTBEAT_PERIOD_MS_def heartbeat_tick_def
      broadcastPlayback_def host_yt_def host_fallback_def isYouTubeUrl_short
      isYouTubeUrl_fallback yt_at_def html5_at_def or0_def select_player_cases extract_fallback)

subsection \<open>Source classification and player selection\<close>

lemma starts_with_iff: "starts_with p s = (take (length p) s = p)"
  by (induction p s rule: starts_with.induct) auto

lemma includes_str_iff: "includes_str s p = (\<exists>a b. s = a @ p @ b)"
proof (induction s)
  case Nil
  then show ?case by auto
next
  case (Cons c cs)
  have sw: "starts_with p (c # cs) = (\<exists>b. c # cs = p @ b)"
    unfolding starts_with_iff by (metis append_eq_conv_conj append_take_drop_id)
  show ?case
  proof
    assume "includes_str (c # cs) p"
    then consider "starts_with p (c # cs)" | "includes_str cs p" by auto
    then show "\<exists>a b. c # cs = a @ p @ b"
    proof cases
      case 1
      with sw obtain b where "c # cs = p @ b" by blast
      then have "c # cs = [] @ p @ b" by simp
      then show ?thesis by blast
    next
      case 2
      with Cons.IH obtain a b where "cs = a @ p @ b" by blast
      then have "c # cs = (c # a) @ p @ b" by simp
      then show ?thesis by blast
    qed
  next
    assume "\<exists>a b. c # cs = a @ p @ b"
    then obtain a b where ab: "c # cs = a @ p @ b" by blast
    show "includes_str (c # cs) p"
    proof (cases a)
      case Nil
      with ab have "\<exists>b. c # cs = p @ b" by auto
      with sw have "starts_with p (c # cs)" by simp
      then show ?thesis by (simp only: includes_str.simps simp_thms)
    next
      case (Cons x xs)
      with ab have "cs = xs @ p @ b" by simp
      with Cons.IH show ?thesis by auto
    qed
  qed
qed

lemma takeWhile_nonempty: "takeWhile P xs \<noteq> [] \<longleftrightarrow> xs \<noteq> [] \<and> P (hd xs)"
  by (cases xs) auto

lemma starts_with_embed: "starts_with ''/embed/'' s = (take 7 s = ''/embed/'')"
  unfolding starts_with_iff by (simp add: eval_nat_numeral)

lemma head_match_embed_at:
  "(starts_with ''/embed/'' s \<and> takeWhile word_char (drop 7 s) \<noteq> []) = embed_at s 0"
proof -
  have "drop 7 s \<noteq> [] \<longleftrightarrow> 7 < length s" by (simp add: not_le)
  moreover have "7 < length s \<Longrightarrow> hd (drop 7 s) = s ! 7"
    by (simp add: hd_drop_conv_nth)
  ultimately show ?thesis
    unfolding embed_at_def starts_with_embed takeWhile_nonempty
    by auto
qed

lemma embed_at_Suc: "embed_at (c # cs) (Suc k) = embed_at cs k"
  by (simp add: embed_at_def add.commute)

lemma drop_Suc_add_7: "drop (Suc k + 7) (c # cs) = drop (k + 7) cs"
  by (simp only: add_Suc drop_Suc_Cons)

lemma match_embed_step:
  "match_embed (c # cs) =
     (if embed_at (c # cs) 0 then Some (takeWhile word_char (drop 7 (c # cs))) else match_embed cs)"
  unfolding head_match_embed_at [symmetric] by (simp only: match_embed.simps)

lemma embed_at_Nil: "\<not> embed_at [] k"
  by (simp add: embed_at_def)

lemma match_embed_iff:
  "match_embed s = Some i \<longleftrightarrow>
     (\<exists>k. embed_at s k \<and> (\<forall>j<k. \<not> embed_at s j) \<and> i = takeWhile word_char (drop (k + 7) s))"
proof (induction s)
  case Nil
  then show ?case by (simp add: embed_at_Nil)
next
  case (Cons c cs)
  show ?case
  proof (cases "embed_at (c # cs) 0")
    case True
    have "(\<exists>k. embed_at (c # cs) k \<and> (\<forall>j<k. \<not> embed_at (c # cs) j)
            \<and> i = takeWhile word_char (drop (k + 7) (c # cs)))
          \<longleftrightarrow> i = takeWhile word_char (drop 7 (c # cs))"
    proof
      assume "\<exists>k. embed_at (c # cs) k \<and> (\<forall>j<k. \<not> embed_at (c # cs) j)
            \<and> i = takeWhile word_char (drop (k + 7) (c # cs))"
      then obtain k where k: "\<forall>j<k. \<not> embed_at (c # cs) j"
        "i = takeWhile word_char (drop (k + 7) (c # cs))" by blast
      from k(1) True have "k = 0" by (cases k) auto
      with k(2) show "i = takeWhile word_char (drop 7 (c # cs))" by simp
    next
      assume "i = takeWhile word_char (drop 7 (c # cs))"
      with True have "embed_at (c # cs) 0 \<and> (\<forall>j<0. \<not> embed_at (c # cs) j)
            \<and> i = takeWhile word_char (drop (0 + 7) (c # cs))" by simp
      then show "\<exists>k. embed_at (c # cs) k \<and> (\<forall>j<k. \<not> embed_at (c # cs) j)
            \<and> i = takeWhile word_char (drop (k + 7) (c # cs))" by blast
    qed
    with True show ?thesis unfolding match_embed_step by auto
  next
    case False
    have "(\<exists>k. embed_at (c # cs) k \<and> (\<forall>j<k. \<not> embed_at (c # cs) j)
            \<and> i = takeWhile word_char (drop (k + 7) (c # cs)))
          \<longleftrightarrow> (\<exists>k. embed_at cs k \<and> (\<forall>j<k. \<not> embed_at cs j)
            \<and> i = takeWhile word_char (drop (k + 7) cs))"
    proof
      assume "\<exists>k. embed_at (c # cs) k \<and> (\<forall>j<k. \<not> embed_at (c # cs) j)
            \<and> i = takeWhile word_char (drop (k + 7) (c # cs))"
      then obtain k where k: "embed_at (c # cs) k" "\<forall>j<k. \<not> embed_at (c # cs) j"
        "i = takeWhile word_char (drop (k + 7) (c # cs))" by blast
      from k(1) False obtain k' where k': "k = Suc k'" by (cases k) auto
      have "embed_at cs k'" using k(1) k' by (simp add: embed_at_Suc)
      moreover have "\<forall>j<k'. \<not> embed_at cs j"
      proof (intro allI impI)
        fix j assume "j < k'"
        then have "Suc j < k" using k' by simp
        with k(2) have "\<not> embed_at (c # cs) (Suc j)" by blast
        then show "\<not> embed_at cs j" by (simp add: embed_at_Suc)
      qed
      moreover have "i = takeWhile word_char (drop (k' + 7) cs)"
        using k(3) unfolding k' drop_Suc_add_7 .
      ultimately show "\<exists>k. embed_at cs k \<and> (\<forall>j<k. \<not> embed_at cs j)
            \<and> i = takeWhile word_char (drop (k + 7) cs)" by blast
    next
      assume "\<exists>k. embed_at cs k \<and> (\<forall>j<k. \<not> embed_at cs j)
            \<and> i = takeWhile word_char (drop (k + 7) cs)"
      then obtain k where k: "embed_at cs k" "\<forall>j<k. \<not> embed_at cs j"
        "i = takeWhile word_char (drop (k + 7) cs)" by blast
      have "embed_at (c # cs) (Suc k)" using k(1) by (simp add: embed_at_Suc)
      moreover have "\<forall>j<Suc k. \<not> embed_at (c # cs) j"
      proof (intro allI impI)
        fix j assume j: "j < Suc k"
        show "\<not> embed_at (c # cs) j"
        proof (cases j)
          case 0
          with False show ?thesis by simp
        next
          case (Suc j')
          with j have "j' < k" by simp
          with k(2) have "\<not> embed_at cs j'" by blast
          with Suc show ?thesis by (simp add: embed_at_Suc)
        qed
      qed
      moreover have "i = takeWhile word_char (drop (Suc k + 7) (c # cs))"
        using k(3) unfolding drop_Suc_add_7 .
      ultimately show "\<exists>k. embed_at (c # cs) k \<and> (\<forall>j<k. \<not> embed_at (c # cs) j)
            \<and> i = takeWhile word_char (drop (k + 7) (c # cs))" by blast
    qed
    with False Cons.IH show ?thesis unfolding match_embed_step by simp
  qed
qed

lemma match_embed_None_iff: "match_embed s = None \<longleftrightarrow> (\<forall>k. \<not> embed_at s k)"
proof (induction s)
  case Nil
  then show ?case by (simp add: embed_at_Nil)
next
  case (Cons c cs)
  have "(\<forall>k. \<not> embed_at (c # cs) k) \<longleftrightarrow> \<not> embed_at (c # cs) 0 \<and> (\<forall>k. \<not> embed_at cs k)"
  proof
    assume a: "\<forall>k. \<not> embed_at (c # cs) k"
    then have "\<forall>k. \<not> embed_at (c # cs) (Suc k)" by blast
    with a show "\<not> embed_at (c # cs) 0 \<and> (\<forall>k. \<not> embed_at cs k)"
      by (simp add: embed_at_Suc)
  next
    assume a: "\<not> embed_at (c # cs) 0 \<and> (\<forall>k. \<not> embed_at cs k)"
    show "\<forall>k. \<not> embed_at (c # cs) k"
    proof
      fix k show "\<not> embed_at (c # cs) k"
        using a by (cases k) (simp_all add: embed_at_Suc)
    qed
  qed
  with Cons.IH show ?case unfolding match_embed_step by simp
qed


lemma word_char_iff:
  "word_char c =
     (c \<in> set ''abcdefghijklmnopqrstuvwxyzABCDEFGHIJKLMNOPQRSTUVWXYZ0123456789_-'')"
proof -
  define n :: nat where "n = of_char c"
  have c: "c = char_of n" by (simp add: n_def)
  have lt: "n < 256" by (simp add: n_def)
  have of: "of_char (char_of n :: char) = n"
    using lt by simp
  show ?thesis
    unfolding c word_char_def Let_def of
    using lt by (simp add: char_of_eq_iff take_bit_nat_eq_self) arith
qed


text \<open>
  C6, as amended. A source URL is classified as embedded-widget when it contains
  \<^verbatim>\<open>youtu.be/\<close> or \<^verbatim>\<open>youtube.com/\<close>. The id is taken by the first of these that applies:
  when the host is exactly \<^verbatim>\<open>youtu.be\<close>, the whole path after its leading slash; otherwise,
  when the host contains \<^verbatim>\<open>youtube.com\<close>, the first \<^verbatim>\<open>v\<close> query parameter if it is
  present and not empty, else the longest run of letters, digits, underscores and hyphens
  that follows the leftmost \<^verbatim>\<open>/embed/\<close> of the path which is followed by such a character
  (no id when the path has none); in every other case, and when the URL does not parse,
  there is no id. The embedded-widget player is constructed exactly when the URL is
  classified as YouTube and the id is present and not empty; in every other case the
  native-media player is constructed with the URL itself, and it is mounted showing no
  error.
\<close>

theorem youtube_id_first_match:
  "isYouTubeUrl w = ((\<exists>a b. w = a @ ''youtu.be/'' @ b) \<or> (\<exists>a b. w = a @ ''youtube.com/'' @ b))
   \<and> (hostname u = ''youtu.be'' \<longrightarrow> extractYouTubeId (Some u) = Some (drop 1 (pathname u)))
   \<and> (hostname u \<noteq> ''youtu.be'' \<and> (\<exists>a b. hostname u = a @ ''youtube.com'' @ b)
        \<and> map_of (searchParams u) ''v'' = Some v \<and> v \<noteq> []
      \<longrightarrow> extractYouTubeId (Some u) = Some v)
   \<and> (hostname u \<noteq> ''youtu.be'' \<and> (\<exists>a b. hostname u = a @ ''youtube.com'' @ b)
        \<and> (map_of (searchParams u) ''v'' = None \<or> map_of (searchParams u) ''v'' = Some [])
      \<longrightarrow> extractYouTubeId (Some u) = match_embed (pathname u))
   \<and> (hostname u \<noteq> ''youtu.be'' \<and> \<not> (\<exists>a b. hostname u = a @ ''youtube.com'' @ b)
      \<longrightarrow> extractYouTubeId (Some u) = None)
   \<and> extractYouTubeId None = None
   \<and> (match_embed s = Some i)
       = (\<exists>k. embed_at s k \<and> (\<forall>j<k. \<not> embed_at s j)
              \<and> i = takeWhile word_char (drop (k + 7) s))
   \<and> (match_embed s = None) = (\<forall>k. \<not> embed_at s k)
   \<and> word_char c
       = (c \<in> set ''abcdefghijklmnopqrstuvwxyzABCDEFGHIJKLMNOPQRSTUVWXYZ0123456789_-'')
   \<and> (isYouTubeUrl vurl \<and> extractYouTubeId parsed = Some j \<and> j \<noteq> []
      \<longrightarrow> select_player vurl parsed = MountYouTube j)
   \<and> (\<not> (isYouTubeUrl vurl \<and> extractYouTubeId parsed \<noteq> None \<and> extractYouTubeId parsed \<noteq> Some [])
      \<longrightarrow> select_player vurl parsed = MountHtml5 vurl
          \<and> error_shown (mount allowed (select_player vurl parsed)) = None)"
proof -
  have 1: "isYouTubeUrl w
      = ((\<exists>a b. w = a @ ''youtu.be/'' @ b) \<or> (\<exists>a b. w = a @ ''youtube.com/'' @ b))"
    unfolding isYouTubeUrl_def includes_str_iff ..
  have 2: "hostname u = ''youtu.be'' \<longrightarrow> extractYouTubeId (Some u) = Some (drop 1 (pathname u))"
    by (simp add: extractYouTubeId_def)
  have 3: "hostname u \<noteq> ''youtu.be'' \<and> (\<exists>a b. hostname u = a @ ''youtube.com'' @ b)
        \<and> map_of (searchParams u) ''v'' = Some v \<and> v \<noteq> []
      \<longrightarrow> extractYouTubeId (Some u) = Some v"
    unfolding includes_str_iff [symmetric]
    by (simp add: extractYouTubeId_def searchParams_get_def)
  have 4: "hostname u \<noteq> ''youtu.be'' \<and> (\<exists>a b. hostname u = a @ ''youtube.com'' @ b)
        \<and> (map_of (searchParams u) ''v'' = None \<or> map_of (searchParams u) ''v'' = Some [])
      \<longrightarrow> extractYouTubeId (Some u) = match_embed (pathname u)"
    unfolding includes_str_iff [symmetric]
    by (auto simp: extractYouTubeId_def searchParams_get_def)
  have 5: "hostname u \<noteq> ''youtu.be'' \<and> \<not> (\<exists>a b. hostname u = a @ ''youtube.com'' @ b)
      \<longrightarrow> extractYouTubeId (Some u) = None"
    unfolding includes_str_iff [symmetric]
    by (simp add: extractYouTubeId_def)
  have 6: "extractYouTubeId None = None"
    by (simp add: extractYouTubeId_def)
  have 9: "isYouTubeUrl vurl \<and> extractYouTubeId parsed = Some j \<and> j \<noteq> []
      \<longrightarrow> select_player vurl parsed = MountYouTube j"
    by (simp add: select_player_cases)
  have 10: "\<not> (isYouTubeUrl vurl \<and> extractYouTubeId parsed \<noteq> None
        \<and> extractYouTubeId parsed \<noteq> Some [])
      \<longrightarrow> select_player vurl parsed = MountHtml5 vurl
          \<and> error_shown (mount allowed (select_player vurl parsed)) = None"
    by (cases "extractYouTubeId parsed") (auto simp: select_player_cases)
  from 1 2 3 4 5 6 match_embed_iff match_embed_None_iff word_char_iff 9 10
  show ?thesis by (intro conjI)
qed

lemma isYouTubeUrl_shorts: "isYouTubeUrl ''https://www.youtube.com/shorts/abc123''"
  by (simp add: isYouTubeUrl_def)

lemma extract_shorts: "extractYouTubeId (Some url_shorts) = None"
  by (simp add: extractYouTubeId_def url_shorts_def searchParams_get_def)

text \<open>
  C6 as stated fails on "no player is constructed": a YouTube Shorts link is classified
  as YouTube, none of the three shapes matches, and the native-media player is
  constructed with the page URL, showing no error.
\<close>

theorem unmatched_youtube_url_counterexample:
  "isYouTubeUrl ''https://www.youtube.com/shorts/abc123''
   \<and> extractYouTubeId (Some url_shorts) = None
   \<and> select_player ''https://www.youtube.com/shorts/abc123'' (Some url_shorts)
       = MountHtml5 ''https://www.youtube.com/shorts/abc123''
   \<and> error_shown (mount True
         (select_player ''https://www.youtube.com/shorts/abc123'' (Some url_shorts))) = None"
  by (simp add: isYouTubeUrl_shorts extract_shorts select_player_cases)


text \<open>
  The three recognised shapes give the id \<^verbatim>\<open>abc123\<close>, the leftmost embed segment wins, and
  an unrelated URL gets the native-media player.
\<close>

theorem youtube_id_first_match_witness:
  "extractYouTubeId (Some url_short) = Some ''abc123''
   \<and> extractYouTubeId (Some url_watch) = Some ''abc123''
   \<and> extractYouTubeId (Some url_embed) = Some ''abc123''
   \<and> match_embed ''/embed//embed/abc-1_x?y'' = Some ''abc-1_x''
   \<and> extractYouTubeId (Some url_mp4) = None
   \<and> select_player ''https://youtu.be/abc123'' (Some url_short) = MountYouTube ''abc123''
   \<and> select_player ''https://example.com/video.mp4'' (Some url_mp4)
       = MountHtml5 ''https://example.com/video.mp4''
   \<and> error_shown (mount True (select_player ''https://example.com/video.mp4'' (Some url_mp4)))
       = None"
proof -
  have yc: "\<exists>a b. ''www.youtube.com'' = a @ ''youtube.com'' @ b"
  proof -
    have "''www.youtube.com'' = ''www.'' @ ''youtube.com'' @ []" by simp
    then show ?thesis by blast
  qed
  have h2: "hostname url_short = ''youtu.be''"
    by (simp add: url_short_def)
  have h3: "hostname url_watch \<noteq> ''youtu.be''
      \<and> (\<exists>a b. hostname url_watch = a @ ''youtube.com'' @ b)
      \<and> map_of (searchParams url_watch) ''v'' = Some ''abc123'' \<and> ''abc123'' \<noteq> []"
    using yc by (simp add: url_watch_def)
  have h4: "hostname url_embed \<noteq> ''youtu.be''
      \<and> (\<exists>a b. hostname url_embed = a @ ''youtube.com'' @ b)
      \<and> (map_of (searchParams url_embed) ''v'' = None
          \<or> map_of (searchParams url_embed) ''v'' = Some [])"
    using yc by (simp add: url_embed_def)
  have nc: "\<not> (\<exists>a b. ''example.com'' = a @ ''youtube.com'' @ b)"
    unfolding includes_str_iff [symmetric] by simp
  have h5: "hostname url_mp4 \<noteq> ''youtu.be''
      \<and> \<not> (\<exists>a b. hostname url_mp4 = a @ ''youtube.com'' @ b)"
    using nc by (simp add: url_mp4_def)
  have m1: "match_embed ''/embed/abc123'' = Some ''abc123''"
    by (simp add: word_char_def)
  have m2: "match_embed ''/embed//embed/abc-1_x?y'' = Some ''abc-1_x''"
    by (simp add: word_char_def)
  note c2 = youtube_id_first_match [THEN conjunct2, THEN conjunct1]
  note c3 = youtube_id_first_match [THEN conjunct2, THEN conjunct2, THEN conjunct1]
  note c4 = youtube_id_first_match [THEN conjunct2, THEN conjunct2, THEN conjunct2,
      THEN conjunct1]
  note c5 = youtube_id_first_match [THEN conjunct2, THEN conjunct2, THEN conjunct2,
      THEN conjunct2, THEN conjunct1]
  note c9 = youtube_id_first_match [THEN conjunct2, THEN conjunct2, THEN conjunct2,
      THEN conjunct2, THEN conjunct2, THEN conjunct2, THEN conjunct2, THEN conjunct2,
      THEN conjunct2, THEN conjunct1]
  note c10 = youtube_id_first_match [THEN conjunct2, THEN conjunct2, THEN conjunct2,
      THEN conjunct2, THEN conjunct2, THEN conjunct2, THEN conjunct2, THEN conjunct2,
      THEN conjunct2, THEN conjunct2]
  have "extractYouTubeId (Some url_short) = Some (drop 1 (pathname url_short))"
    using c2 h2 by (rule mp)
  then have e1: "extractYouTubeId (Some url_short) = Some ''abc123''"
    by (simp add: url_short_def)
  have e2: "extractYouTubeId (Some url_watch) = Some ''abc123''"
    using c3 h3 by (rule mp)
  have "extractYouTubeId (Some url_embed) = match_embed (pathname url_embed)"
    using c4 h4 by (rule mp)
  then have e3: "extractYouTubeId (Some url_embed) = Some ''abc123''"
    using m1 by (simp add: url_embed_def)
  have e4: "extractYouTubeId (Some url_mp4) = None"
    using c5 h5 by (rule mp)
  have h9: "isYouTubeUrl ''https://youtu.be/abc123''
      \<and> extractYouTubeId (Some url_short) = Some ''abc123'' \<and> ''abc123'' \<noteq> []"
    using e1 by (simp add: isYouTubeUrl_def)
  have e9: "select_player ''https://youtu.be/abc123'' (Some url_short) = MountYouTube ''abc123''"
    using c9 h9 by (rule mp)
  have h10: "\<not> (isYouTubeUrl ''https://example.com/video.mp4''
      \<and> extractYouTubeId (Some url_mp4) \<noteq> None \<and> extractYouTubeId (Some url_mp4) \<noteq> Some [])"
    by (simp add: not_isYouTubeUrl_mp4)
  have e10: "select_player ''https://example.com/video.mp4'' (Some url_mp4)
       = MountHtml5 ''https://example.com/video.mp4''
     \<and> error_shown (mount True (select_player ''https://example.com/video.mp4'' (Some url_mp4)))
       = None"
    using c10 h10 by (rule mp)
  note e10a = e10 [THEN conjunct1] and e10b = e10 [THEN conjunct2]
  from e1 e2 e3 m2 e4 e9 e10a e10b show ?thesis by (intro conjI)
qed

subsection \<open>The scope of the playback listener\<close>

text \<open>
  A client that joined by link: the join effect ran in the first render, before the Room
  record was fetched, and does not run again when the fetched \<^verbatim>\<open>videoUrl\<close> arrives. Its
  playback listener therefore keeps a scope with an empty \<open>videoUrl\<close> and \<open>viewerReady\<close>
  false, and applies nothing, also in a YouTube room with a drift of three seconds;
  \<^verbatim>\<open>handleSyncNow\<close>, created by the latest render, does reconcile.
\<close>

lemma joiner_listener_keeps_first_scope:
  "join_effect joiner = (joiner, Some joiner)
   \<and> join_rerender joiner (onRoomGet ''guest'' (Some room_r1) joiner) (Some joiner)
       = (onRoomGet ''guest'' (Some room_r1) joiner, Some joiner)
   \<and> videoUrl (onRoomGet ''guest'' (Some room_r1) joiner) = ''https://youtu.be/abc''
   \<and> fst (snd (onPlaybackValue joiner 1002000 (Some remote_playing)
          (onRoomGet ''guest'' (Some room_r1) joiner) (Some (yt_at 99 1)))) = []
   \<and> fst (handleSyncNow (onRoomGet ''guest'' (Some room_r1) joiner) 1002000 store_r1
          (Some (yt_at 99 1))) = [Seek 102]"
  by (simp add: join_effect_def join_rerender_def join_deps_def joiner_def onRoomGet_def
      room_r1_def onPlaybackValue_def syncToPlayer_def isYouTubeUrl_def handleSyncNow_def
      store_r1_def expected_remote_playing remote_playing_fields yt_at_def fl_numeral
      DRIFT_THRESHOLD_value Let_def)

end
